theory Spec2Isabelle
  imports Main
begin

section \<open>Little Lemon restaurant API: data model\<close>

text \<open>
  The models of \<^verbatim>\<open>restaurant/models.py\<close> as records, the tables as lists of rows.
  A \<^verbatim>\<open>DecimalField(max_digits=10, decimal_places=2)\<close> holds an exact decimal with two
  places; it is modelled as the integer number of hundredths, so that the sums and the
  products with an integer quantity that the code computes are exact.
  A date is its day number, a time of day the number of microseconds since midnight
  (Python orders \<^verbatim>\<open>datetime.time\<close> values in this way).
\<close>

type_synonym money = int
type_synonym date = int
type_synonym time = nat

definition time_hm :: "nat \<Rightarrow> nat \<Rightarrow> time" where
  "time_hm h m = ((h * 60 + m) * 60) * 1000000"

text \<open>A user of \<^verbatim>\<open>django.contrib.auth\<close>: key, name, staff flag and the names of its groups.\<close>

record usr =
  u_id :: nat
  username :: string
  is_staff :: bool
  groups :: "string list"

record menu =
  m_id :: nat
  m_title :: string
  m_price :: money
  m_featured :: bool

record cart =
  c_id :: nat
  c_user :: nat
  c_menuitem :: nat
  c_quantity :: int
  c_unit_price :: money
  c_price :: money

record order =
  o_id :: nat
  o_user :: nat
  o_delivery_crew :: "nat option"
  o_status :: bool
  o_total :: money
  o_date :: date

record order_item =
  oi_id :: nat
  oi_order :: nat
  oi_menuitem :: nat
  oi_quantity :: int
  oi_unit_price :: money
  oi_price :: money

record reservation =
  r_id :: nat
  r_user :: nat
  r_name :: string
  r_guests :: int
  r_date :: date
  r_time :: time
  r_special :: string

text \<open>
  The database: one list of rows per table, and the next key of each table with an
  automatic primary key.
\<close>

record db =
  users :: "usr list"
  menus :: "menu list"
  carts :: "cart list"
  orders :: "order list"
  order_items :: "order_item list"
  reservations :: "reservation list"
  next_menu :: nat
  next_cart :: nat
  next_order :: nat
  next_order_item :: nat
  next_reservation :: nat

text \<open>
  What a request can end in. \<open>Invalid\<close> is a \<^verbatim>\<open>serializers.ValidationError\<close> with its
  (field, message) entries; \<open>UniqueViolation\<close> is the validation error of the
  unique-together validator that the serializer derives from \<^verbatim>\<open>Meta.unique_together\<close>
  (a 400 answer like \<open>Invalid\<close>, reported under no field); \<open>BadRequest\<close> is a 400
  response built by a view with its \<^verbatim>\<open>error\<close> text; \<open>Unhandled\<close> is a Python exception
  that no handler of the views catches, named by its class.
\<close>

datatype failure =
    Invalid "(string \<times> string) list"
  | BadRequest string
  | Forbidden
  | NotFound
  | UniqueViolation
  | Unhandled string

datatype response = OK | Created | NoContent | Failed failure

section \<open>Fields of the serializers\<close>

text \<open>
  The serializers are \<^verbatim>\<open>ModelSerializer\<close>s: the framework derives their fields, with
  the validators of the fields, from \<^verbatim>\<open>models.py\<close>. A \<^verbatim>\<open>CharField\<close> strips the
  white space around its value, rejects a value that is then empty unless the model
  field has \<^verbatim>\<open>blank=True\<close>, and checks \<^verbatim>\<open>max_length\<close> and the absence of null
  characters on the stripped value. A string is modelled as the list of its characters,
  with code points below 256; \<^verbatim>\<open>str.strip\<close> removes the characters for which
  \<^verbatim>\<open>str.isspace\<close> holds.
\<close>

definition is_space :: "char \<Rightarrow> bool" where
  "is_space c =
     (c \<in> set [CHR 0x09, CHR 0x0A, CHR 0x0B, CHR 0x0C, CHR 0x0D, CHR 0x1C, CHR 0x1D,
                CHR 0x1E, CHR 0x1F, CHR 0x20, CHR 0x85, CHR 0xA0])"

definition strip :: "string \<Rightarrow> string" where
  "strip v = rev (dropWhile is_space (rev (dropWhile is_space v)))"

text \<open>
  The errors of a \<^verbatim>\<open>CharField\<close> named \<open>f\<close>; \<open>limited\<close> when the model field has
  \<^verbatim>\<open>max_length=255\<close> (all \<^verbatim>\<open>models.CharField\<close>s of this program have).
\<close>

definition char_errors :: "string \<Rightarrow> bool \<Rightarrow> bool \<Rightarrow> string \<Rightarrow> (string \<times> string) list" where
  "char_errors f allow_blank limited v =
     (if strip v = [] then
        (if allow_blank then [] else [(f, ''This field may not be blank.'')])
      else
        (if limited \<and> length (strip v) > 255 then
           [(f, ''Ensure this field has no more than 255 characters.'')]
         else [])
        @ (if CHR 0x00 \<in> set (strip v) then [(f, ''Null characters are not allowed.'')]
           else []))"

text \<open>
  A field of the model without default is required unless the update is partial.
\<close>

definition required_error :: "bool \<Rightarrow> string \<Rightarrow> (string \<times> string) list" where
  "required_error partial f = (if partial then [] else [(f, ''This field is required.'')])"

section \<open>Reservations\<close>

text \<open>
  The data of a reservation request after parsing: every field may be absent (a PATCH
  sends only some of them). \<^verbatim>\<open>attrs.get(k)\<close> is the field, \<open>None\<close> when absent.
\<close>

record res_data =
  d_name :: "string option"
  d_guests :: "int option"
  d_date :: "date option"
  d_time :: "time option"
  d_special :: "string option"

text \<open>\<^verbatim>\<open>ReservationSerializer.validate_number_of_guests\<close>\<close>

definition validate_number_of_guests :: "int \<Rightarrow> string + int" where
  "validate_number_of_guests v =
     (if v < 1 then Inl ''Number of guests must be at least 1''
      else if v > 20 then
        Inl ''Number of guests cannot exceed 20. Please contact us for larger parties.''
      else Inr v)"

text \<open>\<^verbatim>\<open>ReservationSerializer.validate_reservation_date\<close>; \<open>today\<close> is \<^verbatim>\<open>date.today()\<close>.\<close>

definition validate_reservation_date :: "date \<Rightarrow> date \<Rightarrow> string + date" where
  "validate_reservation_date today v =
     (if v < today then Inl ''Reservation date cannot be in the past'' else Inr v)"

definition opening_time :: time where
  "opening_time = time_hm 11 0"

definition closing_time :: time where
  "closing_time = time_hm 22 0"

text \<open>
  Python's \<^verbatim>\<open>a < b\<close> on \<^verbatim>\<open>reservation_time\<close>: comparing \<^verbatim>\<open>None\<close> with a
  \<^verbatim>\<open>datetime.time\<close> raises \<^verbatim>\<open>TypeError\<close>.
\<close>

definition time_lt :: "time option \<Rightarrow> time \<Rightarrow> failure + bool" where
  "time_lt a b = (case a of None \<Rightarrow> Inl (Unhandled ''TypeError'') | Some t \<Rightarrow> Inr (t < b))"

definition time_gt :: "time option \<Rightarrow> time \<Rightarrow> failure + bool" where
  "time_gt a b = (case a of None \<Rightarrow> Inl (Unhandled ''TypeError'') | Some t \<Rightarrow> Inr (t > b))"

text \<open>
  \<^verbatim>\<open>ReservationSerializer.validate\<close>; \<open>today\<close> is \<^verbatim>\<open>date.today()\<close> and \<open>now\<close> is
  \<^verbatim>\<open>datetime.now().time()\<close>. The two checks are in the order of the source, and
  \<^verbatim>\<open>or\<close> evaluates its right operand only when the left one is false.
\<close>

definition past_time_check :: "date \<Rightarrow> time \<Rightarrow> res_data \<Rightarrow> failure + unit" where
  "past_time_check today now attrs =
     (if d_date attrs = Some today then
        (case time_lt (d_time attrs) now of
           Inl e \<Rightarrow> Inl e
         | Inr b \<Rightarrow>
             if b then Inl (Invalid [(''reservation_time'',
                                      ''Reservation time cannot be in the past'')])
             else Inr ())
      else Inr ())"

definition business_hours_check :: "res_data \<Rightarrow> failure + unit" where
  "business_hours_check attrs =
     (case time_lt (d_time attrs) opening_time of
        Inl e \<Rightarrow> Inl e
      | Inr early \<Rightarrow>
          (case (if early then Inr True else time_gt (d_time attrs) closing_time) of
             Inl e \<Rightarrow> Inl e
           | Inr outside \<Rightarrow>
               if outside then Inl (Invalid [(''reservation_time'',
                 ''Reservations are only available between 11:00 AM and 10:00 PM'')])
               else Inr ()))"

definition validate :: "date \<Rightarrow> time \<Rightarrow> res_data \<Rightarrow> failure + res_data" where
  "validate today now attrs =
     (case past_time_check today now attrs of
        Inl e \<Rightarrow> Inl e
      | Inr _ \<Rightarrow>
          (case business_hours_check attrs of
             Inl e \<Rightarrow> Inl e
           | Inr _ \<Rightarrow> Inr attrs))"

text \<open>
  The field step of the serializer (\<^verbatim>\<open>to_internal_value\<close>). A field that is present
  goes through the validators of the field and then, when these pass, through its
  \<^verbatim>\<open>validate_<field>\<close> method; the errors of all fields are collected under the
  field names.

  \<^verbatim>\<open>number_of_guests\<close> is a \<^verbatim>\<open>models.IntegerField\<close> with \<^verbatim>\<open>MinValueValidator(1)\<close>:
  the serializer field is \<^verbatim>\<open>IntegerField(min_value=1, max_value=2147483647)\<close>. The
  upper bound is the range of the column, which depends on the database; the settings
  that name the database are outside \<^verbatim>\<open>restaurant/\<close>, and the bound here is the one
  of Django's base database operations. These bounds are checked before
  \<^verbatim>\<open>validate_number_of_guests\<close> is called, which therefore never sees a value below 1.
\<close>

definition guests_errors :: "bool \<Rightarrow> res_data \<Rightarrow> (string \<times> string) list" where
  "guests_errors partial data =
     (case d_guests data of
        None \<Rightarrow> required_error partial ''number_of_guests''
      | Some v \<Rightarrow>
          if v > 2147483647 then
            [(''number_of_guests'', ''Ensure this value is less than or equal to 2147483647.'')]
          else if v < 1 then
            [(''number_of_guests'', ''Ensure this value is greater than or equal to 1.'')]
          else (case validate_number_of_guests v of
                  Inl m \<Rightarrow> [(''number_of_guests'', m)] | Inr _ \<Rightarrow> []))"

definition date_errors :: "bool \<Rightarrow> date \<Rightarrow> res_data \<Rightarrow> (string \<times> string) list" where
  "date_errors partial today data =
     (case d_date data of
        None \<Rightarrow> required_error partial ''reservation_date''
      | Some v \<Rightarrow> (case validate_reservation_date today v of
                     Inl m \<Rightarrow> [(''reservation_date'', m)] | Inr _ \<Rightarrow> []))"

text \<open>
  \<^verbatim>\<open>name\<close> is a \<^verbatim>\<open>CharField(max_length=255)\<close>; \<^verbatim>\<open>special_requests\<close> is a
  \<^verbatim>\<open>TextField(blank=True, default='')\<close>, so it is not required and may be blank.
\<close>

definition field_errors :: "bool \<Rightarrow> date \<Rightarrow> res_data \<Rightarrow> (string \<times> string) list" where
  "field_errors partial today data =
     (case d_name data of None \<Rightarrow> required_error partial ''name''
                         | Some v \<Rightarrow> char_errors ''name'' False True v)
     @ guests_errors partial data
     @ date_errors partial today data
     @ (case d_time data of None \<Rightarrow> required_error partial ''reservation_time''
                          | Some _ \<Rightarrow> [])
     @ (case d_special data of None \<Rightarrow> []
                             | Some v \<Rightarrow> char_errors ''special_requests'' True False v)"

text \<open>The validated data of the field step: the strings are stripped.\<close>

definition to_internal_value :: "res_data \<Rightarrow> res_data" where
  "to_internal_value data =
     data\<lparr>d_name := map_option strip (d_name data),
          d_special := map_option strip (d_special data)\<rparr>"

text \<open>
  The unique-together validator of \<^verbatim>\<open>Reservation.Meta.unique_together\<close> = (user,
  reservation_date, reservation_time), which the framework derives for the serializer
  because \<^verbatim>\<open>user\<close>, although read-only, has a default. The validator searches the
  table for a row with the three values. For \<^verbatim>\<open>user\<close> it takes the default
  \<^verbatim>\<open>CurrentUserDefault()\<close>, the user of the request; a partial update sets no
  defaults, and then the user is the one of the row. On an update (\<open>instance\<close> is the
  row) a date or time that is absent from the data is taken from the row, and the row
  itself is left out of the search. On a create the date and the time are present,
  being required by the field step.
\<close>

definition validator_user :: "bool \<Rightarrow> usr \<Rightarrow> reservation option \<Rightarrow> nat" where
  "validator_user partial user instance =
     (case instance of
        None \<Rightarrow> u_id user
      | Some i \<Rightarrow> if partial then r_user i else u_id user)"

definition unique_together_clash ::
    "bool \<Rightarrow> usr \<Rightarrow> reservation option \<Rightarrow> res_data \<Rightarrow> db \<Rightarrow> bool" where
  "unique_together_clash partial user instance attrs s =
     (case (case d_date attrs of Some d \<Rightarrow> Some d | None \<Rightarrow> map_option r_date instance,
            case d_time attrs of Some t \<Rightarrow> Some t | None \<Rightarrow> map_option r_time instance) of
        (Some d, Some t) \<Rightarrow>
          (\<exists>x \<in> set (reservations s).
              (case instance of None \<Rightarrow> True | Some i \<Rightarrow> r_id x \<noteq> r_id i)
              \<and> r_user x = validator_user partial user instance
              \<and> r_date x = d \<and> r_time x = t)
      | _ \<Rightarrow> False)"

text \<open>
  \<^verbatim>\<open>serializer.is_valid\<close>: the field step; then, when no field failed, the
  unique-together validator; then, when that passed, \<^verbatim>\<open>validate\<close> on the validated
  data.
\<close>

definition run_validation ::
    "bool \<Rightarrow> usr \<Rightarrow> reservation option \<Rightarrow> date \<Rightarrow> time \<Rightarrow> res_data \<Rightarrow> db
      \<Rightarrow> failure + res_data" where
  "run_validation partial user instance today now data s =
     (if field_errors partial today data \<noteq> [] then
        Inl (Invalid (field_errors partial today data))
      else if unique_together_clash partial user instance (to_internal_value data) s then
        Inl UniqueViolation
      else validate today now (to_internal_value data))"

text \<open>\<^verbatim>\<open>user.groups.filter(name=g).exists()\<close>\<close>

definition in_group :: "usr \<Rightarrow> string \<Rightarrow> bool" where
  "in_group user g = (g \<in> set (groups user))"

text \<open>
  \<^verbatim>\<open>ReservationViewSet.get_queryset\<close>, and \<^verbatim>\<open>get_object\<close> of the framework: the row of
  the queryset with the key of the URL, \<^verbatim>\<open>Http404\<close> (here \<open>None\<close>) when there is none.
\<close>

definition reservation_queryset :: "usr \<Rightarrow> db \<Rightarrow> reservation list" where
  "reservation_queryset user s =
     (if is_staff user then reservations s
      else filter (\<lambda>r. r_user r = u_id user) (reservations s))"

definition reservation_get_object :: "usr \<Rightarrow> nat \<Rightarrow> db \<Rightarrow> reservation option" where
  "reservation_get_object user pk s = find (\<lambda>r. r_id r = pk) (reservation_queryset user s)"

text \<open>
  The unique constraint of the table, from \<^verbatim>\<open>Reservation.Meta.unique_together\<close>: a
  row cannot be saved while one of the other rows of the table has the same user, date
  and time; the database raises \<^verbatim>\<open>IntegrityError\<close>.
\<close>

definition reservation_clash :: "reservation \<Rightarrow> reservation list \<Rightarrow> bool" where
  "reservation_clash r others =
     (\<exists>x \<in> set others. r_user x = r_user r \<and> r_date x = r_date r \<and> r_time x = r_time r)"

text \<open>
  POST \<^verbatim>\<open>/reservations/\<close>: validation, then \<^verbatim>\<open>perform_create\<close> saves the row with
  \<^verbatim>\<open>user=request.user\<close>. A field that is absent after validation cannot be stored
  (the columns are not nullable); \<^verbatim>\<open>special_requests\<close> has the default \<^verbatim>\<open>''\<close>.
\<close>

definition reservation_create ::
    "usr \<Rightarrow> date \<Rightarrow> time \<Rightarrow> res_data \<Rightarrow> db \<Rightarrow> response \<times> db" where
  "reservation_create user today now data s =
     (case run_validation False user None today now data s of
        Inl e \<Rightarrow> (Failed e, s)
      | Inr attrs \<Rightarrow>
          (case (d_name attrs, d_guests attrs, d_date attrs, d_time attrs) of
             (Some n, Some g, Some d, Some t) \<Rightarrow>
               (let r = \<lparr>r_id = next_reservation s, r_user = u_id user, r_name = n,
                          r_guests = g, r_date = d, r_time = t,
                          r_special = (case d_special attrs of None \<Rightarrow> [] | Some x \<Rightarrow> x)\<rparr>
                in if reservation_clash r (reservations s) then
                     (Failed (Unhandled ''IntegrityError''), s)
                   else (Created, s\<lparr>reservations := reservations s @ [r],
                                     next_reservation := Suc (next_reservation s)\<rparr>))
           | _ \<Rightarrow> (Failed (Unhandled ''IntegrityError''), s)))"

text \<open>\<^verbatim>\<open>ModelSerializer.update\<close>: every validated field that is present is set on the row.\<close>

definition reservation_apply :: "res_data \<Rightarrow> reservation \<Rightarrow> reservation" where
  "reservation_apply attrs r =
     r\<lparr>r_name := (case d_name attrs of None \<Rightarrow> r_name r | Some x \<Rightarrow> x),
       r_guests := (case d_guests attrs of None \<Rightarrow> r_guests r | Some x \<Rightarrow> x),
       r_date := (case d_date attrs of None \<Rightarrow> r_date r | Some x \<Rightarrow> x),
       r_time := (case d_time attrs of None \<Rightarrow> r_time r | Some x \<Rightarrow> x),
       r_special := (case d_special attrs of None \<Rightarrow> r_special r | Some x \<Rightarrow> x)\<rparr>"

text \<open>
  PUT and PATCH \<^verbatim>\<open>/reservations/{pk}/\<close> (\<open>partial\<close> for PATCH): the row is looked up in
  the queryset of the user first, then the data is validated, then the row is saved.
  On a PUT the validator has searched with the user of the request; the constraint of
  the table is on the user of the row, which is another user when staff edits a
  reservation.
\<close>

definition reservation_update ::
    "bool \<Rightarrow> usr \<Rightarrow> date \<Rightarrow> time \<Rightarrow> nat \<Rightarrow> res_data \<Rightarrow> db \<Rightarrow> response \<times> db" where
  "reservation_update partial user today now pk data s =
     (case reservation_get_object user pk s of
        None \<Rightarrow> (Failed NotFound, s)
      | Some instance \<Rightarrow>
          (case run_validation partial user (Some instance) today now data s of
             Inl e \<Rightarrow> (Failed e, s)
           | Inr attrs \<Rightarrow>
               (let r = reservation_apply attrs instance
                in if reservation_clash r (filter (\<lambda>x. r_id x \<noteq> r_id instance)
                                                   (reservations s))
                   then (Failed (Unhandled ''IntegrityError''), s)
                   else (OK, s\<lparr>reservations :=
                                  map (\<lambda>x. if r_id x = r_id instance then r else x)
                                      (reservations s)\<rparr>))))"

definition reservation_retrieve :: "usr \<Rightarrow> nat \<Rightarrow> db \<Rightarrow> response \<times> db" where
  "reservation_retrieve user pk s =
     (case reservation_get_object user pk s of
        None \<Rightarrow> (Failed NotFound, s)
      | Some instance \<Rightarrow> (OK, s))"

definition reservation_destroy :: "usr \<Rightarrow> nat \<Rightarrow> db \<Rightarrow> response \<times> db" where
  "reservation_destroy user pk s =
     (case reservation_get_object user pk s of
        None \<Rightarrow> (Failed NotFound, s)
      | Some instance \<Rightarrow>
          (NoContent, s\<lparr>reservations :=
                          filter (\<lambda>x. r_id x \<noteq> r_id instance) (reservations s)\<rparr>))"

section \<open>Permissions\<close>

text \<open>
  \<^verbatim>\<open>permissions.py\<close>, for a user who is authenticated (the views below are all behind
  \<^verbatim>\<open>IsAuthenticated\<close> or stricter; the anonymous user is not modelled).
\<close>

definition IsAdminUser :: "usr \<Rightarrow> bool" where
  "IsAdminUser user = is_staff user"

definition IsManager :: "usr \<Rightarrow> bool" where
  "IsManager user = (in_group user ''Manager'' \<or> is_staff user)"

definition IsDeliveryCrew :: "usr \<Rightarrow> bool" where
  "IsDeliveryCrew user =
     (in_group user ''Delivery crew'' \<or> in_group user ''Manager'' \<or> is_staff user)"

definition IsCustomer :: "usr \<Rightarrow> bool" where
  "IsCustomer user =
     (\<not> (in_group user ''Manager'' \<or> in_group user ''Delivery crew'') \<or> is_staff user)"

section \<open>Menu\<close>

record menu_data =
  md_title :: "string option"
  md_price :: "money option"
  md_featured :: "bool option"

text \<open>\<^verbatim>\<open>MenuSerializer.validate_price\<close>\<close>

definition validate_price :: "money \<Rightarrow> string + money" where
  "validate_price v = (if v \<le> 0 then Inl ''Price must be greater than 0'' else Inr v)"

text \<open>
  The field step. \<^verbatim>\<open>title\<close> is a \<^verbatim>\<open>CharField(max_length=255)\<close>. \<^verbatim>\<open>price\<close> is a
  \<^verbatim>\<open>DecimalField(max_digits=10, decimal_places=2)\<close> with
  \<^verbatim>\<open>MinValueValidator(Decimal('0.01'))\<close>: a price of 100000000.00 or more has too many
  digits, and a price below 0.01 is below the minimum of the field; both are checked
  before \<^verbatim>\<open>validate_price\<close> is called.
\<close>

definition price_errors :: "money \<Rightarrow> (string \<times> string) list" where
  "price_errors v =
     (if \<bar>v\<bar> \<ge> 10000000000 then
        [(''price'', ''Ensure that there are no more than 8 digits before the decimal point.'')]
      else if v < 1 then
        [(''price'', ''Ensure this value is greater than or equal to 0.01.'')]
      else (case validate_price v of Inl m \<Rightarrow> [(''price'', m)] | Inr _ \<Rightarrow> []))"

definition menu_errors :: "bool \<Rightarrow> menu_data \<Rightarrow> (string \<times> string) list" where
  "menu_errors partial data =
     (case md_title data of None \<Rightarrow> required_error partial ''title''
                          | Some v \<Rightarrow> char_errors ''title'' False True v)
     @ (case md_price data of
          None \<Rightarrow> required_error partial ''price''
        | Some v \<Rightarrow> price_errors v)"

text \<open>
  \<^verbatim>\<open>MenuViewSet\<close>: \<^verbatim>\<open>get_permissions\<close> asks \<^verbatim>\<open>IsAdminUser\<close> for create, update and
  destroy and \<^verbatim>\<open>IsManager\<close> for \<^verbatim>\<open>update_featured\<close>.
\<close>

definition menu_create :: "usr \<Rightarrow> menu_data \<Rightarrow> db \<Rightarrow> response \<times> db" where
  "menu_create user data s =
     (if \<not> IsAdminUser user then (Failed Forbidden, s)
      else if menu_errors False data \<noteq> [] then (Failed (Invalid (menu_errors False data)), s)
      else
        (case (md_title data, md_price data) of
           (Some t, Some p) \<Rightarrow>
             (Created, s\<lparr>menus := menus s @
                            [\<lparr>m_id = next_menu s, m_title = strip t, m_price = p,
                              m_featured = (case md_featured data of None \<Rightarrow> False
                                                                   | Some f \<Rightarrow> f)\<rparr>],
                          next_menu := Suc (next_menu s)\<rparr>)
         | _ \<Rightarrow> (Failed (Unhandled ''IntegrityError''), s)))"

definition menu_apply :: "menu_data \<Rightarrow> menu \<Rightarrow> menu" where
  "menu_apply data m =
     m\<lparr>m_title := (case md_title data of None \<Rightarrow> m_title m | Some x \<Rightarrow> strip x),
       m_price := (case md_price data of None \<Rightarrow> m_price m | Some x \<Rightarrow> x),
       m_featured := (case md_featured data of None \<Rightarrow> m_featured m | Some x \<Rightarrow> x)\<rparr>"

definition menu_update :: "bool \<Rightarrow> usr \<Rightarrow> nat \<Rightarrow> menu_data \<Rightarrow> db \<Rightarrow> response \<times> db" where
  "menu_update partial user pk data s =
     (if \<not> IsAdminUser user then (Failed Forbidden, s)
      else
        (case find (\<lambda>m. m_id m = pk) (menus s) of
           None \<Rightarrow> (Failed NotFound, s)
         | Some instance \<Rightarrow>
             if menu_errors partial data \<noteq> [] then
               (Failed (Invalid (menu_errors partial data)), s)
             else (OK, s\<lparr>menus := map (\<lambda>m. if m_id m = pk then menu_apply data m else m)
                                       (menus s)\<rparr>)))"

text \<open>
  DELETE \<^verbatim>\<open>/menu-items/{pk}/\<close>. \<^verbatim>\<open>Cart.menuitem\<close> and \<^verbatim>\<open>OrderItem.menuitem\<close> are
  foreign keys with \<^verbatim>\<open>on_delete=models.CASCADE\<close>: the rows that refer to the menu item
  are deleted with it.
\<close>

definition menu_destroy :: "usr \<Rightarrow> nat \<Rightarrow> db \<Rightarrow> response \<times> db" where
  "menu_destroy user pk s =
     (if \<not> IsAdminUser user then (Failed Forbidden, s)
      else
        (case find (\<lambda>m. m_id m = pk) (menus s) of
           None \<Rightarrow> (Failed NotFound, s)
         | Some instance \<Rightarrow>
             (NoContent,
              s\<lparr>menus := filter (\<lambda>m. m_id m \<noteq> pk) (menus s),
                carts := filter (\<lambda>c. c_menuitem c \<noteq> pk) (carts s),
                order_items := filter (\<lambda>i. oi_menuitem i \<noteq> pk) (order_items s)\<rparr>)))"

text \<open>\<^verbatim>\<open>MenuViewSet.update_featured\<close>; the argument is \<^verbatim>\<open>request.data.get('featured', None)\<close>.\<close>

definition update_featured :: "usr \<Rightarrow> nat \<Rightarrow> bool option \<Rightarrow> db \<Rightarrow> response \<times> db" where
  "update_featured user pk featured s =
     (if \<not> IsManager user then (Failed Forbidden, s)
      else
        (case find (\<lambda>m. m_id m = pk) (menus s) of
           None \<Rightarrow> (Failed NotFound, s)
         | Some menu_item \<Rightarrow>
             (case featured of
                None \<Rightarrow> (Failed (BadRequest ''featured field is required''), s)
              | Some f \<Rightarrow>
                  (OK, s\<lparr>menus := map (\<lambda>m. if m_id m = pk then m\<lparr>m_featured := f\<rparr> else m)
                                      (menus s)\<rparr>))))"

section \<open>Cart\<close>

text \<open>
  The data of a cart request (\<^verbatim>\<open>menuitem\<close> is a primary key, resolved against
  \<^verbatim>\<open>Menu.objects.all()\<close>), and the validated data that the serializer's methods
  receive, where \<^verbatim>\<open>menuitem\<close> is the row of the menu.
\<close>

record cart_data =
  cd_menuitem :: "nat option"
  cd_quantity :: "int option"

record cart_attrs =
  ca_menuitem :: "menu option"
  ca_quantity :: "int option"

text \<open>\<^verbatim>\<open>CartSerializer.validate_quantity\<close>\<close>

definition validate_quantity :: "int \<Rightarrow> string + int" where
  "validate_quantity v = (if v < 1 then Inl ''Quantity must be at least 1'' else Inr v)"

text \<open>
  The field step: \<^verbatim>\<open>menuitem\<close> is required unless the update is partial and must be the
  key of a menu row; \<^verbatim>\<open>quantity\<close> has a default in the model, so it is not required.
  \<^verbatim>\<open>quantity\<close> is a \<^verbatim>\<open>models.SmallIntegerField\<close> with \<^verbatim>\<open>MinValueValidator(1)\<close>: the
  serializer field is \<^verbatim>\<open>IntegerField(min_value=1, max_value=32767)\<close>, the upper bound
  being the range of the column in Django's base database operations, and these bounds
  are checked before \<^verbatim>\<open>validate_quantity\<close> is called.
\<close>

definition quantity_errors :: "int \<Rightarrow> (string \<times> string) list" where
  "quantity_errors v =
     (if v > 32767 then
        [(''quantity'', ''Ensure this value is less than or equal to 32767.'')]
      else if v < 1 then
        [(''quantity'', ''Ensure this value is greater than or equal to 1.'')]
      else (case validate_quantity v of Inl m \<Rightarrow> [(''quantity'', m)] | Inr _ \<Rightarrow> []))"

definition cart_errors :: "bool \<Rightarrow> cart_data \<Rightarrow> db \<Rightarrow> (string \<times> string) list" where
  "cart_errors partial data s =
     (case cd_menuitem data of
        None \<Rightarrow> required_error partial ''menuitem''
      | Some k \<Rightarrow> (case find (\<lambda>m. m_id m = k) (menus s) of
                     None \<Rightarrow> [(''menuitem'', ''Invalid pk - object does not exist.'')]
                   | Some _ \<Rightarrow> []))
     @ (case cd_quantity data of
          None \<Rightarrow> []
        | Some v \<Rightarrow> quantity_errors v)"

definition cart_validated :: "cart_data \<Rightarrow> db \<Rightarrow> cart_attrs" where
  "cart_validated data s =
     \<lparr>ca_menuitem = (case cd_menuitem data of None \<Rightarrow> None
                      | Some k \<Rightarrow> find (\<lambda>m. m_id m = k) (menus s)),
      ca_quantity = cd_quantity data\<rparr>"

text \<open>
  \<^verbatim>\<open>CartSerializer.create\<close>: \<^verbatim>\<open>validated_data[k]\<close> raises \<^verbatim>\<open>KeyError\<close> for a key that
  is absent; \<open>user\<close> is the \<^verbatim>\<open>user=request.user\<close> of \<^verbatim>\<open>perform_create\<close> and \<open>pk\<close> the
  key that the database gives the new row.
\<close>

definition cart_serializer_create :: "nat \<Rightarrow> nat \<Rightarrow> cart_attrs \<Rightarrow> failure + cart" where
  "cart_serializer_create pk user validated_data =
     (case ca_menuitem validated_data of
        None \<Rightarrow> Inl (Unhandled ''KeyError'')
      | Some menuitem \<Rightarrow>
          (case ca_quantity validated_data of
             None \<Rightarrow> Inl (Unhandled ''KeyError'')
           | Some quantity \<Rightarrow>
               Inr \<lparr>c_id = pk, c_user = user, c_menuitem = m_id menuitem,
                    c_quantity = quantity, c_unit_price = m_price menuitem,
                    c_price = m_price menuitem * quantity\<rparr>))"

text \<open>\<^verbatim>\<open>CartSerializer.update\<close>, the two \<^verbatim>\<open>if\<close> statements in the order of the source.\<close>

definition cart_serializer_update :: "cart \<Rightarrow> cart_attrs \<Rightarrow> cart" where
  "cart_serializer_update instance validated_data =
     (let i1 = (case ca_quantity validated_data of
                  None \<Rightarrow> instance
                | Some q \<Rightarrow> instance\<lparr>c_quantity := q, c_price := c_unit_price instance * q\<rparr>);
          i2 = (case ca_menuitem validated_data of
                  None \<Rightarrow> i1
                | Some m \<Rightarrow> i1\<lparr>c_menuitem := m_id m, c_unit_price := m_price m,
                               c_price := m_price m * c_quantity i1\<rparr>)
      in i2)"

text \<open>
  The unique-together validator of \<^verbatim>\<open>Cart.Meta.unique_together\<close> = (user, menuitem),
  run by \<^verbatim>\<open>is_valid\<close> after the field step. \<^verbatim>\<open>user\<close> is read-only with the default
  \<^verbatim>\<open>CurrentUserDefault()\<close>, so the validator takes the user of the request; on an
  update (\<open>instance\<close> is the row) a menu item that is absent from the data is taken from
  the row, and the row itself is left out of the search.
\<close>

definition cart_unique_clash :: "usr \<Rightarrow> cart option \<Rightarrow> cart_attrs \<Rightarrow> db \<Rightarrow> bool" where
  "cart_unique_clash user instance attrs s =
     (case (case ca_menuitem attrs of Some m \<Rightarrow> Some (m_id m)
                                     | None \<Rightarrow> map_option c_menuitem instance) of
        Some k \<Rightarrow>
          (\<exists>x \<in> set (carts s).
              (case instance of None \<Rightarrow> True | Some i \<Rightarrow> c_id x \<noteq> c_id i)
              \<and> c_user x = u_id user \<and> c_menuitem x = k)
      | None \<Rightarrow> False)"

text \<open>
  The unique constraint of the table, from the same \<^verbatim>\<open>unique_together\<close>: a row cannot
  be saved while one of the other rows of the table has the same user and menu item;
  the database raises \<^verbatim>\<open>IntegrityError\<close>.
\<close>

definition cart_clash :: "cart \<Rightarrow> cart list \<Rightarrow> bool" where
  "cart_clash r others =
     (\<exists>x \<in> set others. c_user x = c_user r \<and> c_menuitem x = c_menuitem r)"

definition cart_queryset :: "usr \<Rightarrow> db \<Rightarrow> cart list" where
  "cart_queryset user s = filter (\<lambda>c. c_user c = u_id user) (carts s)"

definition cart_get_object :: "usr \<Rightarrow> nat \<Rightarrow> db \<Rightarrow> cart option" where
  "cart_get_object user pk s = find (\<lambda>c. c_id c = pk) (cart_queryset user s)"

text \<open>
  POST \<^verbatim>\<open>/cart/menu-items/\<close>: the field step, the unique-together validator, then
  \<^verbatim>\<open>CartSerializer.create\<close> and the insert.
\<close>

definition cart_create :: "usr \<Rightarrow> cart_data \<Rightarrow> db \<Rightarrow> response \<times> db" where
  "cart_create user data s =
     (if cart_errors False data s \<noteq> [] then (Failed (Invalid (cart_errors False data s)), s)
      else if cart_unique_clash user None (cart_validated data s) s then
        (Failed UniqueViolation, s)
      else
        (case cart_serializer_create (next_cart s) (u_id user) (cart_validated data s) of
           Inl e \<Rightarrow> (Failed e, s)
         | Inr r \<Rightarrow>
             if cart_clash r (carts s) then (Failed (Unhandled ''IntegrityError''), s)
             else (Created, s\<lparr>carts := carts s @ [r], next_cart := Suc (next_cart s)\<rparr>)))"

text \<open>PUT and PATCH \<^verbatim>\<open>/cart/menu-items/{pk}/\<close>\<close>

definition cart_update :: "bool \<Rightarrow> usr \<Rightarrow> nat \<Rightarrow> cart_data \<Rightarrow> db \<Rightarrow> response \<times> db" where
  "cart_update partial user pk data s =
     (case cart_get_object user pk s of
        None \<Rightarrow> (Failed NotFound, s)
      | Some instance \<Rightarrow>
          if cart_errors partial data s \<noteq> [] then
            (Failed (Invalid (cart_errors partial data s)), s)
          else if cart_unique_clash user (Some instance) (cart_validated data s) s then
            (Failed UniqueViolation, s)
          else
            (let r = cart_serializer_update instance (cart_validated data s)
             in if cart_clash r (filter (\<lambda>x. c_id x \<noteq> c_id instance) (carts s))
                then (Failed (Unhandled ''IntegrityError''), s)
                else (OK, s\<lparr>carts := map (\<lambda>x. if c_id x = c_id instance then r else x)
                                         (carts s)\<rparr>)))"

definition cart_retrieve :: "usr \<Rightarrow> nat \<Rightarrow> db \<Rightarrow> response \<times> db" where
  "cart_retrieve user pk s =
     (case cart_get_object user pk s of
        None \<Rightarrow> (Failed NotFound, s)
      | Some instance \<Rightarrow> (OK, s))"

definition cart_destroy :: "usr \<Rightarrow> nat \<Rightarrow> db \<Rightarrow> response \<times> db" where
  "cart_destroy user pk s =
     (case cart_get_object user pk s of
        None \<Rightarrow> (Failed NotFound, s)
      | Some instance \<Rightarrow>
          (NoContent, s\<lparr>carts := filter (\<lambda>x. c_id x \<noteq> c_id instance) (carts s)\<rparr>))"

text \<open>\<^verbatim>\<open>CartViewSet.clear\<close>\<close>

definition cart_clear :: "usr \<Rightarrow> db \<Rightarrow> response \<times> db" where
  "cart_clear user s =
     (NoContent, s\<lparr>carts := filter (\<lambda>c. c_user c \<noteq> u_id user) (carts s)\<rparr>)"

section \<open>Orders\<close>

text \<open>\<^verbatim>\<open>OrderViewSet.get_queryset\<close>\<close>

definition order_queryset :: "usr \<Rightarrow> db \<Rightarrow> order list" where
  "order_queryset user s =
     (if is_staff user \<or> in_group user ''Manager'' then orders s
      else if in_group user ''Delivery crew'' then
        filter (\<lambda>ord. o_delivery_crew ord = Some (u_id user)) (orders s)
      else filter (\<lambda>ord. o_user ord = u_id user) (orders s))"

definition order_get_object :: "usr \<Rightarrow> nat \<Rightarrow> db \<Rightarrow> order option" where
  "order_get_object user pk s = find (\<lambda>ord. o_id ord = pk) (order_queryset user s)"

text \<open>
  \<^verbatim>\<open>OrderViewSet.create\<close> writes to the database 2 + n times for a cart of n rows: the
  order (write 0), one order item per cart row (writes 1 to n), the deletion of the cart
  rows (write n + 1). The view opens no transaction, and nothing in the sources does,
  so a write that has returned stays in the database. A write can fail (the connection
  is lost, a lock times out, a constraint is violated by a row written meanwhile):
  \<open>fault\<close> is the number of the write at which the database raises, \<open>None\<close> when every
  write succeeds. The exception is not caught by the view.
\<close>

definition order_item_of :: "nat \<Rightarrow> order \<Rightarrow> cart \<Rightarrow> order_item" where
  "order_item_of pk ord cart_item =
     \<lparr>oi_id = pk, oi_order = o_id ord, oi_menuitem = c_menuitem cart_item,
      oi_quantity = c_quantity cart_item, oi_unit_price = c_unit_price cart_item,
      oi_price = c_price cart_item\<rparr>"

fun create_items :: "nat option \<Rightarrow> nat \<Rightarrow> order \<Rightarrow> cart list \<Rightarrow> db \<Rightarrow> failure option \<times> db" where
  "create_items fault k ord [] s = (None, s)"
| "create_items fault k ord (cart_item # rest) s =
     (if fault = Some k then (Some (Unhandled ''DatabaseError''), s)
      else create_items fault (Suc k) ord rest
             (s\<lparr>order_items := order_items s @ [order_item_of (next_order_item s) ord cart_item],
                next_order_item := Suc (next_order_item s)\<rparr>))"

definition order_create :: "nat option \<Rightarrow> usr \<Rightarrow> date \<Rightarrow> db \<Rightarrow> response \<times> db" where
  "order_create fault user today s =
     (let cart_items = filter (\<lambda>c. c_user c = u_id user) (carts s) in
      if cart_items = [] then (Failed (BadRequest ''Cart is empty''), s)
      else
        (let total = sum_list (map c_price cart_items) in
         if fault = Some 0 then (Failed (Unhandled ''DatabaseError''), s)
         else
           (let ord = \<lparr>o_id = next_order s, o_user = u_id user, o_delivery_crew = None,
                       o_status = False, o_total = total, o_date = today\<rparr>;
                s1 = s\<lparr>orders := orders s @ [ord], next_order := Suc (next_order s)\<rparr>
            in case create_items fault 1 ord cart_items s1 of
                 (Some e, s2) \<Rightarrow> (Failed e, s2)
               | (None, s2) \<Rightarrow>
                   if fault = Some (Suc (length cart_items)) then
                     (Failed (Unhandled ''DatabaseError''), s2)
                   else (Created,
                         s2\<lparr>carts := filter (\<lambda>c. c_user c \<noteq> u_id user) (carts s2)\<rparr>))))"

text \<open>
  The data of an order update. For \<^verbatim>\<open>status\<close> and \<^verbatim>\<open>delivery_crew\<close>: \<open>None\<close> when
  the key is absent, \<open>Some None\<close> when it is sent as null, \<open>Some (Some v)\<close> for a value
  (for \<^verbatim>\<open>status\<close> the boolean that the field parses, for \<^verbatim>\<open>delivery_crew\<close> a user key).
  \<^verbatim>\<open>total\<close>, \<^verbatim>\<open>user\<close> and \<^verbatim>\<open>date\<close> are what a client may send for the read-only fields.
\<close>

record order_data =
  od_status :: "bool option option"
  od_delivery_crew :: "nat option option"
  od_total :: "money option"
  od_user :: "nat option"
  od_date :: "date option"

text \<open>
  \<^verbatim>\<open>OrderSerializer\<close>: \<^verbatim>\<open>status\<close> may not be null; \<^verbatim>\<open>delivery_crew\<close> may be null,
  and otherwise must be the key of a user of
  \<^verbatim>\<open>User.objects.filter(groups__name='Delivery crew')\<close>. No field is required, and the
  fields of \<^verbatim>\<open>read_only_fields\<close> are not read from the data.
\<close>

definition order_errors :: "order_data \<Rightarrow> db \<Rightarrow> (string \<times> string) list" where
  "order_errors data s =
     (case od_delivery_crew data of
        Some (Some k) \<Rightarrow>
          if \<exists>u \<in> set (users s). u_id u = k \<and> in_group u ''Delivery crew'' then []
          else [(''delivery_crew'', ''Invalid pk - object does not exist.'')]
      | _ \<Rightarrow> [])
     @ (case od_status data of
          Some None \<Rightarrow> [(''status'', ''This field may not be null.'')]
        | _ \<Rightarrow> [])"

definition order_apply :: "order_data \<Rightarrow> order \<Rightarrow> order" where
  "order_apply data ord =
     ord\<lparr>o_delivery_crew := (case od_delivery_crew data of None \<Rightarrow> o_delivery_crew ord
                               | Some v \<Rightarrow> v),
         o_status := (case od_status data of Some (Some b) \<Rightarrow> b | _ \<Rightarrow> o_status ord)\<rparr>"

text \<open>\<^verbatim>\<open>serializer.is_valid(raise_exception=True)\<close> and \<^verbatim>\<open>perform_update\<close>\<close>

definition order_save :: "order \<Rightarrow> order_data \<Rightarrow> db \<Rightarrow> response \<times> db" where
  "order_save instance data s =
     (if order_errors data s \<noteq> [] then (Failed (Invalid (order_errors data s)), s)
      else (OK, s\<lparr>orders := map (\<lambda>x. if o_id x = o_id instance then order_apply data x else x)
                                (orders s)\<rparr>))"

text \<open>\<^verbatim>\<open>request.data.get('status')\<close>: \<^verbatim>\<open>None\<close> for an absent key and for a null value.\<close>

definition get_status :: "order_data \<Rightarrow> bool option" where
  "get_status data = (case od_status data of None \<Rightarrow> None | Some v \<Rightarrow> v)"

text \<open>
  \<^verbatim>\<open>OrderViewSet.update\<close>, the body of the handler of PUT and PATCH \<^verbatim>\<open>/orders/{pk}/\<close>,
  from \<^verbatim>\<open>self.get_object()\<close> on. \<^verbatim>\<open>allowed_data\<close> is the dictionary with the single
  key \<^verbatim>\<open>status\<close>.
\<close>

definition update :: "usr \<Rightarrow> nat \<Rightarrow> order_data \<Rightarrow> db \<Rightarrow> response \<times> db" where
  "update user pk data s =
     (case order_get_object user pk s of
        None \<Rightarrow> (Failed NotFound, s)
      | Some instance \<Rightarrow>
          if in_group user ''Delivery crew'' \<and> \<not> is_staff user then
            (if od_delivery_crew data \<noteq> None then (Failed Forbidden, s)
             else
               (let allowed_data = \<lparr>od_status = Some (get_status data),
                                     od_delivery_crew = None, od_total = None,
                                     od_user = None, od_date = None\<rparr>
                in order_save instance allowed_data s))
          else order_save instance data s)"

text \<open>
  The permissions of the actions \<^verbatim>\<open>update\<close> and \<^verbatim>\<open>partial_update\<close>:
  \<^verbatim>\<open>OrderViewSet.get_permissions\<close> returns \<^verbatim>\<open>[IsManager() | IsDeliveryCrew()]\<close>. The
  framework defines the operator \<^verbatim>\<open>|\<close> for permission classes (on their metaclass);
  \<^verbatim>\<open>IsManager()\<close> and \<^verbatim>\<open>IsDeliveryCrew()\<close> are instances, for which Python finds no
  \<^verbatim>\<open>__or__\<close>, so building the list raises \<^verbatim>\<open>TypeError\<close>. The result of
  \<^verbatim>\<open>get_permissions\<close> is the list of permissions, or the exception it raises.
\<close>

definition update_permissions :: "failure + (usr \<Rightarrow> bool) list" where
  "update_permissions = Inl (Unhandled ''TypeError'')"

text \<open>
  \<^verbatim>\<open>check_permissions\<close> of the framework, called before the handler: it evaluates
  \<^verbatim>\<open>get_permissions()\<close> and denies the request when one of the permissions fails.
\<close>

definition check_permissions :: "failure + (usr \<Rightarrow> bool) list \<Rightarrow> usr \<Rightarrow> failure option" where
  "check_permissions permissions user =
     (case permissions of
        Inl e \<Rightarrow> Some e
      | Inr ps \<Rightarrow> if list_all (\<lambda>p. p user) ps then None else Some Forbidden)"

text \<open>PUT and PATCH \<^verbatim>\<open>/orders/{pk}/\<close>: the permissions, then the handler.\<close>

definition order_update :: "usr \<Rightarrow> nat \<Rightarrow> order_data \<Rightarrow> db \<Rightarrow> response \<times> db" where
  "order_update user pk data s =
     (case check_permissions update_permissions user of
        Some e \<Rightarrow> (Failed e, s)
      | None \<Rightarrow> update user pk data s)"

text \<open>
  \<^verbatim>\<open>OrderViewSet.assign_delivery_crew\<close>, behind \<^verbatim>\<open>IsManager\<close>; the argument is
  \<^verbatim>\<open>request.data.get('delivery_crew_id')\<close>, and \<^verbatim>\<open>not delivery_crew_id\<close> holds for
  \<^verbatim>\<open>None\<close> and for 0.
\<close>

definition assign_delivery_crew :: "usr \<Rightarrow> nat \<Rightarrow> nat option \<Rightarrow> db \<Rightarrow> response \<times> db" where
  "assign_delivery_crew user pk delivery_crew_id s =
     (if \<not> IsManager user then (Failed Forbidden, s)
      else
        (case order_get_object user pk s of
           None \<Rightarrow> (Failed NotFound, s)
         | Some ord \<Rightarrow>
             (case delivery_crew_id of
                None \<Rightarrow> (Failed (BadRequest ''delivery_crew_id is required''), s)
              | Some k \<Rightarrow>
                  if k = 0 then (Failed (BadRequest ''delivery_crew_id is required''), s)
                  else
                    (case find (\<lambda>u. u_id u = k \<and> in_group u ''Delivery crew'') (users s) of
                       None \<Rightarrow> (Failed NotFound, s)
                     | Some delivery_user \<Rightarrow>
                         (OK, s\<lparr>orders :=
                                  map (\<lambda>x. if o_id x = o_id ord
                                           then x\<lparr>o_delivery_crew := Some (u_id delivery_user)\<rparr>
                                           else x) (orders s)\<rparr>)))))"

definition order_retrieve :: "usr \<Rightarrow> nat \<Rightarrow> db \<Rightarrow> response \<times> db" where
  "order_retrieve user pk s =
     (case order_get_object user pk s of
        None \<Rightarrow> (Failed NotFound, s)
      | Some instance \<Rightarrow> (OK, s))"

text \<open>
  DELETE \<^verbatim>\<open>/orders/{pk}/\<close>, behind \<^verbatim>\<open>IsAuthenticated\<close>; \<^verbatim>\<open>OrderItem.order\<close> has
  \<^verbatim>\<open>on_delete=models.CASCADE\<close>.
\<close>

definition order_destroy :: "usr \<Rightarrow> nat \<Rightarrow> db \<Rightarrow> response \<times> db" where
  "order_destroy user pk s =
     (case order_get_object user pk s of
        None \<Rightarrow> (Failed NotFound, s)
      | Some instance \<Rightarrow>
          (NoContent, s\<lparr>orders := filter (\<lambda>x. o_id x \<noteq> o_id instance) (orders s),
                        order_items := filter (\<lambda>i. oi_order i \<noteq> o_id instance)
                                              (order_items s)\<rparr>))"

section \<open>Group rosters\<close>

text \<open>
  \<^verbatim>\<open>ManagerGroupViewSet\<close> (behind \<^verbatim>\<open>IsAdminUser\<close>) and \<^verbatim>\<open>DeliveryCrewGroupViewSet\<close>
  (behind \<^verbatim>\<open>IsManager\<close>) differ in the permission and in the name of the group only.
  \<^verbatim>\<open>not username\<close> holds for \<^verbatim>\<open>None\<close> and for the empty string.
\<close>

definition add_group :: "string \<Rightarrow> usr \<Rightarrow> usr" where
  "add_group g u = (if g \<in> set (groups u) then u else u\<lparr>groups := groups u @ [g]\<rparr>)"

definition remove_group :: "string \<Rightarrow> usr \<Rightarrow> usr" where
  "remove_group g u = u\<lparr>groups := filter (\<lambda>x. x \<noteq> g) (groups u)\<rparr>"

definition group_create :: "bool \<Rightarrow> string \<Rightarrow> string option \<Rightarrow> db \<Rightarrow> response \<times> db" where
  "group_create permitted g name s =
     (if \<not> permitted then (Failed Forbidden, s)
      else
        (case name of
           None \<Rightarrow> (Failed (BadRequest ''username is required''), s)
         | Some n \<Rightarrow>
             if n = [] then (Failed (BadRequest ''username is required''), s)
             else
               (case find (\<lambda>u. username u = n) (users s) of
                  None \<Rightarrow> (Failed NotFound, s)
                | Some user \<Rightarrow>
                    (Created, s\<lparr>users := map (\<lambda>u. if u_id u = u_id user then add_group g u
                                                   else u) (users s)\<rparr>))))"

definition group_destroy :: "bool \<Rightarrow> string \<Rightarrow> nat \<Rightarrow> db \<Rightarrow> response \<times> db" where
  "group_destroy permitted g pk s =
     (if \<not> permitted then (Failed Forbidden, s)
      else
        (case find (\<lambda>u. u_id u = pk) (users s) of
           None \<Rightarrow> (Failed NotFound, s)
         | Some user \<Rightarrow>
             (OK, s\<lparr>users := map (\<lambda>u. if u_id u = u_id user then remove_group g u else u)
                                 (users s)\<rparr>)))"

definition manager_group_create :: "usr \<Rightarrow> string option \<Rightarrow> db \<Rightarrow> response \<times> db" where
  "manager_group_create user name s = group_create (IsAdminUser user) ''Manager'' name s"

definition manager_group_destroy :: "usr \<Rightarrow> nat \<Rightarrow> db \<Rightarrow> response \<times> db" where
  "manager_group_destroy user pk s = group_destroy (IsAdminUser user) ''Manager'' pk s"

definition delivery_crew_group_create :: "usr \<Rightarrow> string option \<Rightarrow> db \<Rightarrow> response \<times> db" where
  "delivery_crew_group_create user name s =
     group_create (IsManager user) ''Delivery crew'' name s"

definition delivery_crew_group_destroy :: "usr \<Rightarrow> nat \<Rightarrow> db \<Rightarrow> response \<times> db" where
  "delivery_crew_group_destroy user pk s =
     group_destroy (IsManager user) ''Delivery crew'' pk s"

section \<open>The requests that write\<close>

text \<open>
  The requests of \<^verbatim>\<open>views.py\<close> that can change the database, each with the user who
  sends it and its data, and the database after a request. \<open>Order_create\<close> is the
  checkout in which no write fails. The categories are left out: no row of the tables
  above refers to them.
\<close>

datatype op =
    Menu_create usr menu_data
  | Menu_update bool usr nat menu_data
  | Menu_destroy usr nat
  | Update_featured usr nat "bool option"
  | Cart_create usr cart_data
  | Cart_update bool usr nat cart_data
  | Cart_destroy usr nat
  | Cart_clear usr
  | Order_create usr date
  | Order_update usr nat order_data
  | Assign_delivery_crew usr nat "nat option"
  | Order_destroy usr nat
  | Reservation_create usr date time res_data
  | Reservation_update bool usr date time nat res_data
  | Reservation_destroy usr nat
  | Manager_group_create usr "string option"
  | Manager_group_destroy usr nat
  | Delivery_crew_group_create usr "string option"
  | Delivery_crew_group_destroy usr nat

fun perform :: "op \<Rightarrow> db \<Rightarrow> response \<times> db" where
  "perform (Menu_create u d) s = menu_create u d s"
| "perform (Menu_update p u k d) s = menu_update p u k d s"
| "perform (Menu_destroy u k) s = menu_destroy u k s"
| "perform (Update_featured u k f) s = update_featured u k f s"
| "perform (Cart_create u d) s = cart_create u d s"
| "perform (Cart_update p u k d) s = cart_update p u k d s"
| "perform (Cart_destroy u k) s = cart_destroy u k s"
| "perform (Cart_clear u) s = cart_clear u s"
| "perform (Order_create u today) s = order_create None u today s"
| "perform (Order_update u k d) s = order_update u k d s"
| "perform (Assign_delivery_crew u k c) s = assign_delivery_crew u k c s"
| "perform (Order_destroy u k) s = order_destroy u k s"
| "perform (Reservation_create u today now d) s = reservation_create u today now d s"
| "perform (Reservation_update p u today now k d) s = reservation_update p u today now k d s"
| "perform (Reservation_destroy u k) s = reservation_destroy u k s"
| "perform (Manager_group_create u n) s = manager_group_create u n s"
| "perform (Manager_group_destroy u k) s = manager_group_destroy u k s"
| "perform (Delivery_crew_group_create u n) s = delivery_crew_group_create u n s"
| "perform (Delivery_crew_group_destroy u k) s = delivery_crew_group_destroy u k s"

definition step :: "op \<Rightarrow> db \<Rightarrow> db" where
  "step x s = snd (perform x s)"

fun run :: "op list \<Rightarrow> db \<Rightarrow> db" where
  "run [] s = s"
| "run (x # xs) s = run xs (step x s)"

section \<open>Properties\<close>

text \<open>
  The rules of the specification for a reservation request with \<open>guests\<close> guests on
  day \<open>d\<close> at time \<open>t\<close>, written from its words: between 1 and 20 guests, a date
  that is not before today, not today at a time before now, a time from 11:00 to 22:00
  with both bounds.
\<close>

definition spec_accepts :: "date \<Rightarrow> time \<Rightarrow> int \<Rightarrow> date \<Rightarrow> time \<Rightarrow> bool" where
  "spec_accepts today now guests d t =
     (1 \<le> guests \<and> guests \<le> 20 \<and> \<not> d < today \<and> \<not> (d = today \<and> t < now)
      \<and> time_hm 11 0 \<le> t \<and> t \<le> time_hm 22 0)"




text \<open>
  From \<open>s\<close> to \<open>t\<close> no order has changed its status: every order of \<open>t\<close> has the key
  and the status of an order of \<open>s\<close>, or it is new (its key was not yet given out in
  \<open>s\<close>) and pending.
\<close>

definition status_kept :: "db \<Rightarrow> db \<Rightarrow> bool" where
  "status_kept s t =
     (\<forall>ord \<in> set (orders t).
        (\<exists>old \<in> set (orders s). o_id old = o_id ord \<and> o_status old = o_status ord)
        \<or> (next_order s \<le> o_id ord \<and> o_status ord = False))"


text \<open>The order items that a checkout writes for the cart rows, with keys from \<open>pk\<close> on.\<close>

fun new_items :: "nat \<Rightarrow> order \<Rightarrow> cart list \<Rightarrow> order_item list" where
  "new_items pk ord [] = []"
| "new_items pk ord (c # cs) = order_item_of pk ord c # new_items (Suc pk) ord cs"


text \<open>
  The cart rows have different keys, all given out, and no two rows with different keys
  have the same user and menu item.
\<close>

definition cart_wf :: "db \<Rightarrow> bool" where
  "cart_wf s =
     (distinct (map c_id (carts s))
      \<and> (\<forall>c \<in> set (carts s). c_id c < next_cart s)
      \<and> (\<forall>x \<in> set (carts s). \<forall>y \<in> set (carts s).
            c_id x \<noteq> c_id y \<longrightarrow> \<not> (c_user x = c_user y \<and> c_menuitem x = c_menuitem y)))"

section \<open>A small restaurant\<close>

text \<open>
  Concrete users and a concrete database, for evaluating the definitions: two
  customers, a member of the delivery crew, a manager and an administrator; two menu
  items (12.99 and 8.99); the cart of alice with two rows; one earlier order of alice,
  delivered by carol; one reservation of alice at 19:00 on day 10.
\<close>

definition alice :: usr where
  "alice = \<lparr>u_id = 1, username = ''alice'', is_staff = False, groups = []\<rparr>"

definition bob :: usr where
  "bob = \<lparr>u_id = 2, username = ''bob'', is_staff = False, groups = []\<rparr>"

definition carol :: usr where
  "carol = \<lparr>u_id = 3, username = ''carol'', is_staff = False, groups = [''Delivery crew'']\<rparr>"

definition dave :: usr where
  "dave = \<lparr>u_id = 4, username = ''dave'', is_staff = False, groups = [''Manager'']\<rparr>"

definition erin :: usr where
  "erin = \<lparr>u_id = 5, username = ''erin'', is_staff = True, groups = []\<rparr>"

definition salad :: menu where
  "salad = \<lparr>m_id = 1, m_title = ''Greek Salad'', m_price = 1299, m_featured = False\<rparr>"

definition bruschetta :: menu where
  "bruschetta = \<lparr>m_id = 2, m_title = ''Bruschetta'', m_price = 899, m_featured = False\<rparr>"

definition shop :: db where
  "shop =
     \<lparr>users = [alice, bob, carol, dave, erin],
      menus = [salad, bruschetta],
      carts = [\<lparr>c_id = 1, c_user = 1, c_menuitem = 1, c_quantity = 2,
                c_unit_price = 1299, c_price = 2598\<rparr>,
               \<lparr>c_id = 2, c_user = 1, c_menuitem = 2, c_quantity = 1,
                c_unit_price = 899, c_price = 899\<rparr>],
      orders = [\<lparr>o_id = 1, o_user = 1, o_delivery_crew = Some 3, o_status = True,
                 o_total = 1798, o_date = 9\<rparr>],
      order_items = [\<lparr>oi_id = 1, oi_order = 1, oi_menuitem = 2, oi_quantity = 2,
                      oi_unit_price = 899, oi_price = 1798\<rparr>],
      reservations = [\<lparr>r_id = 1, r_user = 1, r_name = ''Alice Smith'', r_guests = 2,
                       r_date = 10, r_time = time_hm 19 0, r_special = []\<rparr>],
      next_menu = 3, next_cart = 3, next_order = 2, next_order_item = 2,
      next_reservation = 2\<rparr>"

section \<open>Checkout with an empty cart\<close>

text \<open>
  C7. For every user whose cart holds no rows, the checkout (POST \<^verbatim>\<open>/orders/\<close>) ends in
  the 400 response with the error \<^verbatim>\<open>Cart is empty\<close>, which the view builds itself (it
  is not an exception that escapes), and the database is the one before the call: no
  order and no order item is created. This holds whatever the database would do on a
  write, since no write is reached.
\<close>

theorem empty_cart_rejected:
  assumes "\<forall>c \<in> set (carts s). c_user c \<noteq> u_id user"
  shows "order_create fault user today s = (Failed (BadRequest ''Cart is empty''), s)"
proof -
  from assms have "filter (\<lambda>c. c_user c = u_id user) (carts s) = []"
    by (simp add: filter_empty_conv)
  then show ?thesis
    by (simp add: order_create_def)
qed

theorem empty_cart_rejected_witness:
  "filter (\<lambda>c. c_user c = u_id bob) (carts shop) = []
   \<and> order_create None bob 10 shop = (Failed (BadRequest ''Cart is empty''), shop)"
proof -
  have h: "\<forall>c \<in> set (carts shop). c_user c \<noteq> u_id bob"
    by (simp add: shop_def bob_def)
  from h empty_cart_rejected [OF h, of None 10] show ?thesis
    by (simp add: filter_empty_conv)
qed

section \<open>Looking a row up\<close>

lemma find_SomeD: "find P xs = Some x \<Longrightarrow> P x \<and> x \<in> set xs"
  by (induction xs) (auto split: if_splits)

lemma find_filter_None:
  "\<forall>x \<in> set xs. P x \<longrightarrow> \<not> Q x \<Longrightarrow> find P (filter Q xs) = None"
  by (induction xs) auto

lemma order_get_object_id: "order_get_object user pk s = Some instance \<Longrightarrow> o_id instance = pk"
  by (auto simp add: order_get_object_def dest: find_SomeD)

lemma order_save_status:
  "order_save instance
      \<lparr>od_status = Some (Some b), od_delivery_crew = None, od_total = t, od_user = u,
       od_date = d\<rparr> s
   = (OK, s\<lparr>orders := map (\<lambda>x. if o_id x = o_id instance then x\<lparr>o_status := b\<rparr> else x)
                          (orders s)\<rparr>)"
  by (simp add: order_save_def order_errors_def order_apply_def)

lemma order_save_null:
  "order_save instance
      \<lparr>od_status = Some None, od_delivery_crew = None, od_total = t, od_user = u,
       od_date = d\<rparr> s
   = (Failed (Invalid [(''status'', ''This field may not be null.'')]), s)"
  by (simp add: order_save_def order_errors_def)

section \<open>The writes of a checkout\<close>

lemma create_items_frame:
  "create_items fault k ord cis s = (e, s') \<Longrightarrow>
     carts s' = carts s \<and> next_cart s' = next_cart s \<and> orders s' = orders s
     \<and> next_order s' = next_order s \<and> menus s' = menus s \<and> users s' = users s
     \<and> reservations s' = reservations s"
  by (induction cis arbitrary: k s) (auto split: if_splits)

lemma length_new_items: "length (new_items pk ord cis) = length cis"
  by (induction cis arbitrary: pk) simp_all

lemma new_items_copy:
  "map (\<lambda>i. (oi_order i, oi_menuitem i, oi_quantity i, oi_unit_price i, oi_price i))
       (new_items pk ord cis)
   = map (\<lambda>c. (o_id ord, c_menuitem c, c_quantity c, c_unit_price c, c_price c)) cis"
  by (induction cis arbitrary: pk) (simp_all add: order_item_of_def)

lemma create_items_ok:
  "create_items None k ord cis s =
     (None,
      s\<lparr>order_items := order_items s @ new_items (next_order_item s) ord cis,
        next_order_item := next_order_item s + length cis\<rparr>)"
  by (induction cis arbitrary: k s) simp_all

lemma create_items_fault:
  "create_items (Some j) k ord cis s =
     (if k \<le> j \<and> j < k + length cis then
        (Some (Unhandled ''DatabaseError''),
         s\<lparr>order_items := order_items s @ new_items (next_order_item s) ord (take (j - k) cis),
           next_order_item := next_order_item s + (j - k)\<rparr>)
      else
        (None,
         s\<lparr>order_items := order_items s @ new_items (next_order_item s) ord cis,
           next_order_item := next_order_item s + length cis\<rparr>))"
proof (induction cis arbitrary: k s)
  case Nil
  then show ?case by simp
next
  case (Cons c cis)
  show ?case
  proof (cases "j = k")
    case True
    then show ?thesis by simp
  next
    case False
    then have t: "k < j \<Longrightarrow> take (j - k) (c # cis) = c # take (j - Suc k) cis"
      by (simp add: take_Cons')
    from False have n: "k < j \<Longrightarrow> j - k = Suc (j - Suc k)" by simp
    from False show ?thesis
      by (auto simp add: Cons.IH t n)
  qed
qed

text \<open>
  C1 as stated does not hold: the checkout is not atomic. When the database fails at
  write 2 (the second order item) of the checkout of alice, whose cart has two rows, the
  exception leaves the order and its first item in the database and the cart in place:
  neither everything nor nothing has happened.
\<close>

theorem checkout_not_atomic_counterexample:
  "fst (order_create (Some 2) alice 10 shop) = Failed (Unhandled ''DatabaseError'')
   \<and> carts (snd (order_create (Some 2) alice 10 shop)) = carts shop
   \<and> orders (snd (order_create (Some 2) alice 10 shop))
       = orders shop @ [\<lparr>o_id = 2, o_user = 1, o_delivery_crew = None, o_status = False,
                          o_total = 3497, o_date = 10\<rparr>]
   \<and> order_items (snd (order_create (Some 2) alice 10 shop))
       = order_items shop @ [\<lparr>oi_id = 2, oi_order = 2, oi_menuitem = 1, oi_quantity = 2,
                               oi_unit_price = 1299, oi_price = 2598\<rparr>]"
  by (simp add: order_create_def create_items_fault order_item_of_def shop_def alice_def)

text \<open>
  C1, amended. For a user with a non-empty cart, a checkout in which no write fails
  stores one order (pending, with the sum of the cart prices as total) and one order
  item per cart row, and deletes exactly the cart rows of that user. The writes are not
  inside a transaction: when the database fails at write \<open>j\<close>, the writes before it
  stay. A failure at write 0 leaves the database as it was; a failure at write \<open>j\<close>
  from 1 to n + 1 (n the number of cart rows) leaves the order and the first \<open>j - 1\<close>
  order items stored and the cart untouched.
\<close>

theorem order_create_writes:
  assumes cis: "cis = filter (\<lambda>c. c_user c = u_id user) (carts s)" and ne: "cis \<noteq> []"
    and ord: "ord = \<lparr>o_id = next_order s, o_user = u_id user, o_delivery_crew = None,
                     o_status = False, o_total = sum_list (map c_price cis), o_date = today\<rparr>"
  shows "order_create None user today s
      = (Created,
         s\<lparr>orders := orders s @ [ord],
           order_items := order_items s @ new_items (next_order_item s) ord cis,
           carts := filter (\<lambda>c. c_user c \<noteq> u_id user) (carts s),
           next_order := Suc (next_order s),
           next_order_item := next_order_item s + length cis\<rparr>)
    \<and> order_create (Some 0) user today s = (Failed (Unhandled ''DatabaseError''), s)
    \<and> (\<forall>j. 1 \<le> j \<and> j \<le> Suc (length cis) \<longrightarrow>
          order_create (Some j) user today s
            = (Failed (Unhandled ''DatabaseError''),
               s\<lparr>orders := orders s @ [ord],
                 order_items := order_items s
                                @ new_items (next_order_item s) ord (take (j - 1) cis),
                 next_order := Suc (next_order s),
                 next_order_item := next_order_item s + (j - 1)\<rparr>))"
proof -
  have a: "order_create None user today s
      = (Created,
         s\<lparr>orders := orders s @ [ord],
           order_items := order_items s @ new_items (next_order_item s) ord cis,
           carts := filter (\<lambda>c. c_user c \<noteq> u_id user) (carts s),
           next_order := Suc (next_order s),
           next_order_item := next_order_item s + length cis\<rparr>)"
    using ne by (simp add: order_create_def Let_def create_items_ok cis [symmetric] ord)
  have b: "order_create (Some 0) user today s = (Failed (Unhandled ''DatabaseError''), s)"
    using ne by (simp add: order_create_def Let_def cis [symmetric])
  have c: "order_create (Some j) user today s
            = (Failed (Unhandled ''DatabaseError''),
               s\<lparr>orders := orders s @ [ord],
                 order_items := order_items s
                                @ new_items (next_order_item s) ord (take (j - 1) cis),
                 next_order := Suc (next_order s),
                 next_order_item := next_order_item s + (j - 1)\<rparr>)"
    if "1 \<le> j" "j \<le> Suc (length cis)" for j
  proof (cases "j = Suc (length cis)")
    case True
    then show ?thesis
      using ne by (simp add: order_create_def Let_def create_items_fault cis [symmetric] ord)
  next
    case False
    with that have "j < Suc (length cis)" by simp
    with that show ?thesis
      using ne by (simp add: order_create_def Let_def create_items_fault cis [symmetric] ord)
  qed
  from a b c show ?thesis by blast
qed

theorem order_create_writes_witness:
  "[\<lparr>c_id = 1, c_user = 1, c_menuitem = 1, c_quantity = 2, c_unit_price = 1299,
     c_price = 2598\<rparr>,
    \<lparr>c_id = 2, c_user = 1, c_menuitem = 2, c_quantity = 1, c_unit_price = 899,
     c_price = 899\<rparr>] = filter (\<lambda>c. c_user c = u_id alice) (carts shop)
   \<and> order_create None alice 10 shop
      = (Created,
         shop\<lparr>orders := orders shop @ [\<lparr>o_id = 2, o_user = 1, o_delivery_crew = None,
                                         o_status = False, o_total = 3497, o_date = 10\<rparr>],
              order_items := order_items shop
                 @ [\<lparr>oi_id = 2, oi_order = 2, oi_menuitem = 1, oi_quantity = 2,
                     oi_unit_price = 1299, oi_price = 2598\<rparr>,
                    \<lparr>oi_id = 3, oi_order = 2, oi_menuitem = 2, oi_quantity = 1,
                     oi_unit_price = 899, oi_price = 899\<rparr>],
              carts := [],
              next_order := 3,
              next_order_item := 4\<rparr>)
   \<and> order_create (Some 3) alice 10 shop
      = (Failed (Unhandled ''DatabaseError''),
         shop\<lparr>orders := orders shop @ [\<lparr>o_id = 2, o_user = 1, o_delivery_crew = None,
                                         o_status = False, o_total = 3497, o_date = 10\<rparr>],
              order_items := order_items shop
                 @ [\<lparr>oi_id = 2, oi_order = 2, oi_menuitem = 1, oi_quantity = 2,
                     oi_unit_price = 1299, oi_price = 2598\<rparr>,
                    \<lparr>oi_id = 3, oi_order = 2, oi_menuitem = 2, oi_quantity = 1,
                     oi_unit_price = 899, oi_price = 899\<rparr>],
              next_order := 3,
              next_order_item := 4\<rparr>)"
proof -
  let ?cis = "[\<lparr>c_id = 1, c_user = 1, c_menuitem = 1, c_quantity = 2, c_unit_price = 1299,
                c_price = 2598\<rparr>,
               \<lparr>c_id = 2, c_user = 1, c_menuitem = 2, c_quantity = 1, c_unit_price = 899,
                c_price = 899\<rparr>]"
  let ?ord = "\<lparr>o_id = next_order shop, o_user = u_id alice, o_delivery_crew = None,
               o_status = False, o_total = sum_list (map c_price ?cis), o_date = 10\<rparr>"
  have cis: "?cis = filter (\<lambda>c. c_user c = u_id alice) (carts shop)"
    by (simp add: shop_def alice_def)
  have ne: "?cis \<noteq> []" by simp
  note w = order_create_writes [OF cis ne refl [of ?ord]]
  from w have a: "order_create None alice 10 shop
      = (Created,
         shop\<lparr>orders := orders shop @ [?ord],
           order_items := order_items shop @ new_items (next_order_item shop) ?ord ?cis,
           carts := filter (\<lambda>c. c_user c \<noteq> u_id alice) (carts shop),
           next_order := Suc (next_order shop),
           next_order_item := next_order_item shop + length ?cis\<rparr>)"
    by blast
  from w have b: "order_create (Some 3) alice 10 shop
      = (Failed (Unhandled ''DatabaseError''),
               shop\<lparr>orders := orders shop @ [?ord],
                 order_items := order_items shop
                                @ new_items (next_order_item shop) ?ord (take (3 - 1) ?cis),
                 next_order := Suc (next_order shop),
                 next_order_item := next_order_item shop + (3 - 1)\<rparr>)"
    by simp
  show ?thesis
    unfolding a b by (simp add: order_item_of_def shop_def alice_def)
qed

section \<open>Order update\<close>

text \<open>
  The body of \<^verbatim>\<open>OrderViewSet.update\<close>, for a user who is in the group
  \<^verbatim>\<open>Delivery crew\<close> and not staff, on an order that \<^verbatim>\<open>get_object\<close> finds for that
  user: with the key \<^verbatim>\<open>delivery_crew\<close> in the data the answer is 403; otherwise the
  outcome is a function of the submitted \<^verbatim>\<open>status\<close> alone.
\<close>

lemma update_by_delivery_crew:
  assumes crew: "in_group user ''Delivery crew''" "\<not> is_staff user"
    and obj: "order_get_object user pk s = Some inst"
  shows "(od_delivery_crew data \<noteq> None \<longrightarrow> update user pk data s = (Failed Forbidden, s))
    \<and> (od_delivery_crew data = None \<longrightarrow>
          (\<forall>b. get_status data = Some b \<longrightarrow>
             update user pk data s
               = (OK, s\<lparr>orders := map (\<lambda>x. if o_id x = pk then x\<lparr>o_status := b\<rparr> else x)
                                      (orders s)\<rparr>))
        \<and> (get_status data = None \<longrightarrow>
             update user pk data s
               = (Failed (Invalid [(''status'', ''This field may not be null.'')]), s)))"
proof -
  note pk = order_get_object_id [OF obj]
  have a: "od_delivery_crew data \<noteq> None \<longrightarrow> update user pk data s = (Failed Forbidden, s)"
    using crew obj by (simp add: update_def)
  have b: "update user pk data s
      = (OK, s\<lparr>orders := map (\<lambda>x. if o_id x = pk then x\<lparr>o_status := b\<rparr> else x) (orders s)\<rparr>)"
    if "od_delivery_crew data = None" "get_status data = Some b" for b
    using crew obj that pk by (simp add: update_def order_save_status)
  have c: "update user pk data s
      = (Failed (Invalid [(''status'', ''This field may not be null.'')]), s)"
    if "od_delivery_crew data = None" "get_status data = None"
    using crew obj that by (simp add: update_def order_save_null)
  from a b c show ?thesis by blast
qed

text \<open>
  No request reaches that body: the permissions of the action are evaluated first, and
  evaluating them raises \<^verbatim>\<open>TypeError\<close>, for every user and every order.
\<close>

lemma order_update_raises:
  "order_update user pk data s = (Failed (Unhandled ''TypeError''), s)"
  by (simp add: order_update_def check_permissions_def update_permissions_def)

text \<open>
  C5. The claim (for a delivery-crew user, an update with \<^verbatim>\<open>delivery_crew\<close> in the data
  is answered 403, otherwise the submitted status alone is applied) is what the body of
  the handler does, but not what the program does. The request of carol, of the
  delivery crew, for the order assigned to her, with \<^verbatim>\<open>status\<close> and
  \<^verbatim>\<open>delivery_crew\<close> in the data, ends in the unhandled \<^verbatim>\<open>TypeError\<close> of
  \<^verbatim>\<open>get_permissions\<close>, not in 403; and her request with \<^verbatim>\<open>status\<close> alone ends in the
  same exception and applies nothing.
\<close>

theorem delivery_crew_update_raises:
  "order_update carol 1
      \<lparr>od_status = Some (Some True), od_delivery_crew = Some (Some 7), od_total = None,
       od_user = None, od_date = None\<rparr> shop = (Failed (Unhandled ''TypeError''), shop)
   \<and> order_update carol 1
      \<lparr>od_status = Some (Some False), od_delivery_crew = None, od_total = None,
       od_user = None, od_date = None\<rparr> shop = (Failed (Unhandled ''TypeError''), shop)
   \<and> update carol 1
      \<lparr>od_status = Some (Some True), od_delivery_crew = Some (Some 7), od_total = None,
       od_user = None, od_date = None\<rparr> shop = (Failed Forbidden, shop)"
  by (simp add: order_update_raises update_def order_get_object_def order_queryset_def
      in_group_def shop_def carol_def)

section \<open>What a request leaves alone\<close>

lemma step_order_update: "step (Order_update u k d) s = s"
  by (simp add: step_def order_update_raises)

lemma step_frame_orders:
  assumes "\<forall>u d. x \<noteq> Order_create u d" "\<forall>u k c. x \<noteq> Assign_delivery_crew u k c"
    "\<forall>u k. x \<noteq> Order_destroy u k" "\<forall>u k. x \<noteq> Menu_destroy u k"
  shows "orders (step x s) = orders s \<and> order_items (step x s) = order_items s
    \<and> next_order (step x s) = next_order s"
  using assms
  by (cases x)
    (simp_all add: step_def order_update_raises menu_create_def menu_update_def
      update_featured_def cart_create_def cart_update_def cart_destroy_def cart_clear_def
      reservation_create_def reservation_update_def reservation_destroy_def
      manager_group_create_def manager_group_destroy_def delivery_crew_group_create_def
      delivery_crew_group_destroy_def group_create_def group_destroy_def Let_def
      split: option.splits sum.splits)

lemma menu_destroy_frame:
  "orders (step (Menu_destroy u k) s) = orders s
   \<and> next_order (step (Menu_destroy u k) s) = next_order s"
  by (simp add: step_def menu_destroy_def split: option.splits)

lemma assign_result:
  "snd (assign_delivery_crew u k c s) = s
   \<or> (\<exists>j v. snd (assign_delivery_crew u k c s)
         = s\<lparr>orders := map (\<lambda>x. if o_id x = j then x\<lparr>o_delivery_crew := v\<rparr> else x)
                            (orders s)\<rparr>)"
proof (cases "IsManager u")
  case False
  then show ?thesis by (simp add: assign_delivery_crew_def)
next
  case True
  note m = this
  show ?thesis
  proof (cases "order_get_object u k s")
    case None
    with m show ?thesis by (simp add: assign_delivery_crew_def)
  next
    case (Some ord)
    note o = this
    show ?thesis
    proof (cases c)
      case None
      with m o show ?thesis by (simp add: assign_delivery_crew_def)
    next
      case (Some j)
      note c = this
      show ?thesis
      proof (cases "find (\<lambda>u. u_id u = j \<and> in_group u ''Delivery crew'') (users s)")
        case None
        with m o c show ?thesis by (simp add: assign_delivery_crew_def)
      next
        case (Some du)
        show ?thesis
        proof (cases "j = 0")
          case True
          with m o c show ?thesis by (simp add: assign_delivery_crew_def)
        next
          case False
          with m o c Some have "snd (assign_delivery_crew u k c s)
              = s\<lparr>orders := map (\<lambda>x. if o_id x = o_id ord
                                       then x\<lparr>o_delivery_crew := Some (u_id du)\<rparr> else x)
                                  (orders s)\<rparr>"
            by (simp add: assign_delivery_crew_def)
          then show ?thesis
            by (intro disjI2 exI [of _ "o_id ord"] exI [of _ "Some (u_id du)"])
        qed
      qed
    qed
  qed
qed

lemma assign_orders:
  "\<exists>g. (\<forall>y. o_id (g y) = o_id y \<and> o_status (g y) = o_status y \<and> o_total (g y) = o_total y)
     \<and> orders (snd (assign_delivery_crew u k c s)) = map g (orders s)
     \<and> order_items (snd (assign_delivery_crew u k c s)) = order_items s
     \<and> next_order (snd (assign_delivery_crew u k c s)) = next_order s"
proof -
  from assign_result [of u k c s] consider "snd (assign_delivery_crew u k c s) = s"
    | j v where "snd (assign_delivery_crew u k c s)
         = s\<lparr>orders := map (\<lambda>x. if o_id x = j then x\<lparr>o_delivery_crew := v\<rparr> else x)
                            (orders s)\<rparr>"
    by blast
  then show ?thesis
  proof cases
    case 1
    then show ?thesis by (intro exI [of _ "\<lambda>y. y"]) simp
  next
    case 2
    then show ?thesis
      by (intro exI [of _ "\<lambda>x. if o_id x = j then x\<lparr>o_delivery_crew := v\<rparr> else x"]) simp
  qed
qed

lemma order_create_carts:
  "set (carts (snd (order_create None user today s))) \<subseteq> set (carts s)
   \<and> next_cart (snd (order_create None user today s)) = next_cart s"
  by (auto simp add: order_create_def Let_def create_items_ok)

lemma order_create_cart_rows:
  "\<exists>P. carts (snd (order_create None user today s)) = filter P (carts s)"
proof (cases "filter (\<lambda>c. c_user c = u_id user) (carts s) = []")
  case True
  then have "carts (snd (order_create None user today s)) = filter (\<lambda>c. True) (carts s)"
    by (simp add: order_create_def)
  then show ?thesis by blast
next
  case False
  then have "carts (snd (order_create None user today s))
      = filter (\<lambda>c. c_user c \<noteq> u_id user) (carts s)"
    by (simp add: order_create_def Let_def create_items_ok)
  then show ?thesis by blast
qed

lemma step_frame_carts:
  assumes "\<forall>u d. x \<noteq> Cart_create u d" "\<forall>p u k d. x \<noteq> Cart_update p u k d"
    "\<forall>u k. x \<noteq> Cart_destroy u k" "\<forall>u. x \<noteq> Cart_clear u"
    "\<forall>u k. x \<noteq> Menu_destroy u k" "\<forall>u d. x \<noteq> Order_create u d"
  shows "carts (step x s) = carts s \<and> next_cart (step x s) = next_cart s"
  using assms
  by (cases x)
    (auto simp add: step_def order_update_raises menu_create_def menu_update_def
      update_featured_def assign_delivery_crew_def order_destroy_def
      reservation_create_def reservation_update_def reservation_destroy_def
      manager_group_create_def manager_group_destroy_def delivery_crew_group_create_def
      delivery_crew_group_destroy_def group_create_def group_destroy_def Let_def
      split: option.splits sum.splits)

lemma step_carts:
  "(\<exists>u d. x = Cart_create u d) \<or> (\<exists>p u k d. x = Cart_update p u k d)
   \<or> ((\<exists>P. carts (step x s) = filter P (carts s)) \<and> next_cart (step x s) = next_cart s)"
proof -
  consider (create) u d where "x = Cart_create u d"
    | (update) p u k d where "x = Cart_update p u k d"
    | (destroy) u k where "x = Cart_destroy u k"
    | (clear) u where "x = Cart_clear u"
    | (menu) u k where "x = Menu_destroy u k"
    | (checkout) u d where "x = Order_create u d"
    | (other) "\<forall>u d. x \<noteq> Cart_create u d" "\<forall>p u k d. x \<noteq> Cart_update p u k d"
        "\<forall>u k. x \<noteq> Cart_destroy u k" "\<forall>u. x \<noteq> Cart_clear u"
        "\<forall>u k. x \<noteq> Menu_destroy u k" "\<forall>u d. x \<noteq> Order_create u d"
    by blast
  then show ?thesis
  proof cases
    case create
    then show ?thesis by blast
  next
    case update
    then show ?thesis by blast
  next
    case destroy
    have "\<exists>P. carts (step x s) = filter P (carts s)"
    proof (cases "cart_get_object u k s")
      case None
      then have "carts (step x s) = filter (\<lambda>c. True) (carts s)"
        by (simp add: destroy step_def cart_destroy_def)
      then show ?thesis by blast
    next
      case (Some inst)
      then have "carts (step x s) = filter (\<lambda>c. c_id c \<noteq> c_id inst) (carts s)"
        by (simp add: destroy step_def cart_destroy_def)
      then show ?thesis by blast
    qed
    moreover have "next_cart (step x s) = next_cart s"
      by (simp add: destroy step_def cart_destroy_def split: option.splits)
    ultimately show ?thesis by blast
  next
    case clear
    have "carts (step x s) = filter (\<lambda>c. c_user c \<noteq> u_id u) (carts s)"
      and "next_cart (step x s) = next_cart s"
      by (simp_all add: clear step_def cart_clear_def)
    then show ?thesis by blast
  next
    case menu
    have "\<exists>P. carts (step x s) = filter P (carts s)"
    proof (cases "\<not> IsAdminUser u \<or> find (\<lambda>m. m_id m = k) (menus s) = None")
      case True
      then have "carts (step x s) = filter (\<lambda>c. True) (carts s)"
        by (auto simp add: menu step_def menu_destroy_def)
      then show ?thesis by blast
    next
      case False
      then have "carts (step x s) = filter (\<lambda>c. c_menuitem c \<noteq> k) (carts s)"
        by (auto simp add: menu step_def menu_destroy_def)
      then show ?thesis by blast
    qed
    moreover have "next_cart (step x s) = next_cart s"
      by (simp add: menu step_def menu_destroy_def split: option.splits)
    ultimately show ?thesis by blast
  next
    case checkout
    have "\<exists>P. carts (step x s) = filter P (carts s)"
      by (simp add: checkout step_def order_create_cart_rows)
    moreover have "next_cart (step x s) = next_cart s"
      by (simp add: checkout step_def order_create_carts)
    ultimately show ?thesis by blast
  next
    case other
    then have "carts (step x s) = filter (\<lambda>c. True) (carts s)"
      and "next_cart (step x s) = next_cart s"
      by (simp_all add: step_frame_carts)
    then show ?thesis by blast
  qed
qed


section \<open>The status of an order\<close>

lemma status_kept_refl: "status_kept s s"
  by (auto simp add: status_kept_def)

lemma status_kept_sub:
  assumes "\<forall>ord \<in> set (orders t). \<exists>old \<in> set (orders s).
      o_id old = o_id ord \<and> o_status old = o_status ord"
  shows "status_kept s t"
  using assms unfolding status_kept_def by blast

lemma status_kept_trans:
  assumes st: "status_kept s t" and tu: "status_kept t u" and n: "next_order s \<le> next_order t"
  shows "status_kept s u"
  unfolding status_kept_def
proof
  fix ord assume "ord \<in> set (orders u)"
  with tu consider
      mid where "mid \<in> set (orders t)" "o_id mid = o_id ord" "o_status mid = o_status ord"
    | "next_order t \<le> o_id ord" "o_status ord = False"
    unfolding status_kept_def by blast
  then show "(\<exists>old \<in> set (orders s). o_id old = o_id ord \<and> o_status old = o_status ord)
      \<or> (next_order s \<le> o_id ord \<and> o_status ord = False)"
  proof cases
    case 1
    with st have "(\<exists>old \<in> set (orders s). o_id old = o_id mid \<and> o_status old = o_status mid)
        \<or> (next_order s \<le> o_id mid \<and> o_status mid = False)"
      unfolding status_kept_def by blast
    with 1 show ?thesis by simp
  next
    case 2
    with n show ?thesis by simp
  qed
qed

lemma step_status: "status_kept s (step x s) \<and> next_order s \<le> next_order (step x s)"
proof (cases x)
  case (Order_create u today)
  show ?thesis
  proof (cases "filter (\<lambda>c. c_user c = u_id u) (carts s) = []")
    case True
    then have "step x s = s" by (simp add: Order_create step_def order_create_def)
    then show ?thesis by (simp add: status_kept_refl)
  next
    case False
    then have "\<exists>new. orders (step x s) = orders s @ [new] \<and> o_id new = next_order s
        \<and> o_status new = False"
      and "next_order (step x s) = Suc (next_order s)"
      by (simp_all add: Order_create step_def order_create_def Let_def create_items_ok)
    then show ?thesis by (auto simp add: status_kept_def)
  qed
next
  case (Assign_delivery_crew u k c)
  from assign_orders [of u k c s] obtain g
    where g: "\<And>y. o_id (g y) = o_id y \<and> o_status (g y) = o_status y"
      and o: "orders (step x s) = map g (orders s)"
      and n: "next_order (step x s) = next_order s"
    unfolding Assign_delivery_crew step_def perform.simps by blast
  have "\<forall>ord \<in> set (orders (step x s)). \<exists>old \<in> set (orders s).
      o_id old = o_id ord \<and> o_status old = o_status ord"
    using g by (auto simp add: o)
  then have "status_kept s (step x s)" by (rule status_kept_sub)
  with n show ?thesis by simp
next
  case (Order_destroy u k)
  have "set (orders (step x s)) \<subseteq> set (orders s)"
    and n: "next_order (step x s) = next_order s"
    by (auto simp add: Order_destroy step_def order_destroy_def split: option.splits)
  then have "\<forall>ord \<in> set (orders (step x s)). \<exists>old \<in> set (orders s).
      o_id old = o_id ord \<and> o_status old = o_status ord"
    by blast
  then have "status_kept s (step x s)" by (rule status_kept_sub)
  with n show ?thesis by simp
next
  case (Menu_destroy u k)
  then have "orders (step x s) = orders s" and "next_order (step x s) = next_order s"
    by (simp_all add: menu_destroy_frame)
  then show ?thesis by (auto simp add: status_kept_def)
qed (use step_frame_orders [of x s] in \<open>auto simp add: status_kept_def\<close>)

lemma run_status: "status_kept s (run xs s) \<and> next_order s \<le> next_order (run xs s)"
proof (induction xs arbitrary: s)
  case Nil
  show ?case by (simp add: status_kept_refl)
next
  case (Cons x xs)
  from step_status [of s x] Cons.IH [of "step x s"] show ?case
    by (auto intro: status_kept_trans)
qed

text \<open>
  C6. No sequence of requests moves an order from delivered back to pending, and the
  status, a boolean, has no third value. In fact no request changes the status of an
  order at all: whatever the requests \<open>xs\<close> and whoever sends them, every order of the
  database after \<open>xs\<close> has the key and the status of an order before, or is a new order
  and pending. So, the keys being distinct, an order that was delivered is delivered in
  every later state in which it exists. (The update of an order, the one request that
  is meant to change the status, ends in the exception of its permissions.)
\<close>

theorem order_status_never_reverts:
  "status_kept s (run xs s)
   \<and> (distinct (map o_id (orders s)) \<and> old \<in> set (orders s) \<and> o_id old < next_order s
        \<and> o_status old = True \<and> ord \<in> set (orders (run xs s)) \<and> o_id ord = o_id old
       \<longrightarrow> o_status ord = True)"
proof -
  have k: "status_kept s (run xs s)"
    by (simp add: run_status)
  have "o_status ord = True"
    if d: "distinct (map o_id (orders s))" and o: "old \<in> set (orders s)"
      and l: "o_id old < next_order s" and t: "o_status old = True"
      and m: "ord \<in> set (orders (run xs s))" and e: "o_id ord = o_id old"
  proof -
    from k m consider
        x where "x \<in> set (orders s)" "o_id x = o_id ord" "o_status x = o_status ord"
      | "next_order s \<le> o_id ord"
      unfolding status_kept_def by blast
    then show ?thesis
    proof cases
      case 1
      from d have "inj_on o_id (set (orders s))" by (simp add: distinct_map)
      with 1 o e have "x = old" by (simp add: inj_on_def)
      with 1 t show ?thesis by simp
    next
      case 2
      with l e show ?thesis by simp
    qed
  qed
  with k show ?thesis by blast
qed

theorem order_status_never_reverts_witness:
  "distinct (map o_id (orders shop))
   \<and> map (\<lambda>ord. (o_id ord, o_status ord)) (orders shop) = [(1, True)]
   \<and> next_order shop = 2
   \<and> status_kept shop (run
        [Order_update carol 1 \<lparr>od_status = Some (Some False), od_delivery_crew = None,
                               od_total = None, od_user = None, od_date = None\<rparr>,
         Order_update dave 1 \<lparr>od_status = Some (Some False), od_delivery_crew = None,
                              od_total = None, od_user = None, od_date = None\<rparr>,
         Assign_delivery_crew dave 1 (Some 3),
         Order_create alice 10] shop)
   \<and> map (\<lambda>ord. (o_id ord, o_status ord)) (orders (run
        [Order_update carol 1 \<lparr>od_status = Some (Some False), od_delivery_crew = None,
                               od_total = None, od_user = None, od_date = None\<rparr>,
         Order_update dave 1 \<lparr>od_status = Some (Some False), od_delivery_crew = None,
                              od_total = None, od_user = None, od_date = None\<rparr>,
         Assign_delivery_crew dave 1 (Some 3),
         Order_create alice 10] shop))
      = [(1, True), (2, False)]"
proof -
  let ?xs = "[Order_update carol 1 \<lparr>od_status = Some (Some False), od_delivery_crew = None,
                               od_total = None, od_user = None, od_date = None\<rparr>,
         Order_update dave 1 \<lparr>od_status = Some (Some False), od_delivery_crew = None,
                              od_total = None, od_user = None, od_date = None\<rparr>,
         Assign_delivery_crew dave 1 (Some 3),
         Order_create alice 10]"
  from order_status_never_reverts [of shop ?xs] have k: "status_kept shop (run ?xs shop)"
    by blast
  have a: "distinct (map o_id (orders shop))"
    "map (\<lambda>ord. (o_id ord, o_status ord)) (orders shop) = [(1, True)]"
    "next_order shop = 2"
    by (simp_all add: shop_def)
  have b: "map (\<lambda>ord. (o_id ord, o_status ord)) (orders (run ?xs shop)) = [(1, True), (2, False)]"
    by (simp add: order_update_raises step_def assign_delivery_crew_def IsManager_def
        in_group_def order_get_object_def order_queryset_def order_create_def
        Let_def create_items_ok shop_def alice_def bob_def carol_def dave_def erin_def)
  from a b k show ?thesis by blast
qed

section \<open>Rows of other users\<close>

text \<open>
  C8 as stated does not hold: \<^verbatim>\<open>assign_delivery_crew\<close> is an operation on a single
  order, and for a user who is neither staff nor manager its permission \<^verbatim>\<open>IsManager\<close>
  fails before the order is looked up, so the outcome on the order of another user is
  403, not 404.
\<close>

theorem assign_forbidden_counterexample:
  "\<not> is_staff bob \<and> \<not> in_group bob ''Manager''
   \<and> map o_user (filter (\<lambda>ord. o_id ord = 1) (orders shop)) = [u_id alice]
   \<and> assign_delivery_crew bob 1 (Some 3) shop = (Failed Forbidden, shop)
   \<and> Failed Forbidden \<noteq> Failed NotFound"
  by (simp add: assign_delivery_crew_def IsManager_def in_group_def shop_def bob_def alice_def)

text \<open>
  C8, amended. For a user who is neither staff nor in the group \<^verbatim>\<open>Manager\<close>, and a
  key \<open>pk\<close> under which the table has no row of that user (a row of somebody else, or no
  row at all, with the same outcome): retrieve, update and destroy of a cart row and of
  a reservation, and retrieve and destroy of an order (an order counts as the user's
  when the user placed it or is its delivery crew), answer 404 and change nothing;
  \<^verbatim>\<open>assign_delivery_crew\<close> answers 403 whether or not the order exists. The update of
  an order is left out of this statement.
\<close>

theorem rows_of_others:
  assumes "\<not> is_staff user" "\<not> in_group user ''Manager''"
  shows "((\<forall>c \<in> set (carts s). c_id c = pk \<longrightarrow> c_user c \<noteq> u_id user) \<longrightarrow>
            cart_retrieve user pk s = (Failed NotFound, s)
          \<and> cart_update partial user pk cdata s = (Failed NotFound, s)
          \<and> cart_destroy user pk s = (Failed NotFound, s))
    \<and> ((\<forall>r \<in> set (reservations s). r_id r = pk \<longrightarrow> r_user r \<noteq> u_id user) \<longrightarrow>
            reservation_retrieve user pk s = (Failed NotFound, s)
          \<and> reservation_update partial user today now pk rdata s = (Failed NotFound, s)
          \<and> reservation_destroy user pk s = (Failed NotFound, s))
    \<and> ((\<forall>ord \<in> set (orders s). o_id ord = pk \<longrightarrow>
            o_user ord \<noteq> u_id user \<and> o_delivery_crew ord \<noteq> Some (u_id user)) \<longrightarrow>
            order_retrieve user pk s = (Failed NotFound, s)
          \<and> order_destroy user pk s = (Failed NotFound, s))
    \<and> assign_delivery_crew user pk crew s = (Failed Forbidden, s)"
proof -
  have c: "cart_get_object user pk s = None"
    if "\<forall>c \<in> set (carts s). c_id c = pk \<longrightarrow> c_user c \<noteq> u_id user"
    using that by (simp add: cart_get_object_def cart_queryset_def find_filter_None)
  have r: "reservation_get_object user pk s = None"
    if "\<forall>r \<in> set (reservations s). r_id r = pk \<longrightarrow> r_user r \<noteq> u_id user"
    using that assms
    by (simp add: reservation_get_object_def reservation_queryset_def find_filter_None)
  have o: "order_get_object user pk s = None"
    if "\<forall>ord \<in> set (orders s). o_id ord = pk \<longrightarrow>
            o_user ord \<noteq> u_id user \<and> o_delivery_crew ord \<noteq> Some (u_id user)"
    using that assms
    by (simp add: order_get_object_def order_queryset_def find_filter_None)
  have a: "assign_delivery_crew user pk crew s = (Failed Forbidden, s)"
    using assms by (simp add: assign_delivery_crew_def IsManager_def)
  from c r o a show ?thesis
    by (simp add: cart_retrieve_def cart_update_def cart_destroy_def reservation_retrieve_def
        reservation_update_def reservation_destroy_def order_retrieve_def order_destroy_def)
qed

theorem rows_of_others_witness:
  "\<not> is_staff bob \<and> \<not> in_group bob ''Manager''
   \<and> map c_user (filter (\<lambda>c. c_id c = 1) (carts shop)) = [u_id alice]
   \<and> map r_user (filter (\<lambda>r. r_id r = 1) (reservations shop)) = [u_id alice]
   \<and> map (\<lambda>ord. (o_user ord, o_delivery_crew ord)) (filter (\<lambda>ord. o_id ord = 1) (orders shop))
       = [(u_id alice, Some (u_id carol))]
   \<and> cart_retrieve bob 1 shop = (Failed NotFound, shop)
   \<and> cart_destroy bob 1 shop = (Failed NotFound, shop)
   \<and> reservation_retrieve bob 1 shop = (Failed NotFound, shop)
   \<and> reservation_update True bob 5 0 1
        \<lparr>d_name = None, d_guests = Some 5, d_date = None, d_time = None, d_special = None\<rparr>
        shop = (Failed NotFound, shop)
   \<and> order_retrieve bob 1 shop = (Failed NotFound, shop)
   \<and> order_destroy bob 1 shop = (Failed NotFound, shop)
   \<and> assign_delivery_crew bob 1 (Some 3) shop = (Failed Forbidden, shop)"
proof -
  have s: "\<not> is_staff bob" and m: "\<not> in_group bob ''Manager''"
    by (simp_all add: in_group_def bob_def)
  have c: "\<forall>c \<in> set (carts shop). c_id c = 1 \<longrightarrow> c_user c \<noteq> u_id bob"
    and r: "\<forall>r \<in> set (reservations shop). r_id r = 1 \<longrightarrow> r_user r \<noteq> u_id bob"
    and ord: "\<forall>ord \<in> set (orders shop). o_id ord = 1 \<longrightarrow>
                o_user ord \<noteq> u_id bob \<and> o_delivery_crew ord \<noteq> Some (u_id bob)"
    by (simp_all add: shop_def bob_def)
  have e: "map c_user (filter (\<lambda>c. c_id c = 1) (carts shop)) = [u_id alice]"
    "map r_user (filter (\<lambda>r. r_id r = 1) (reservations shop)) = [u_id alice]"
    "map (\<lambda>ord. (o_user ord, o_delivery_crew ord)) (filter (\<lambda>ord. o_id ord = 1) (orders shop))
       = [(u_id alice, Some (u_id carol))]"
    by (simp_all add: shop_def alice_def carol_def)
  from rows_of_others [OF s m, of shop 1 True undefined 5 0
      "\<lparr>d_name = None, d_guests = Some 5, d_date = None, d_time = None, d_special = None\<rparr>"
      "Some 3"] c r ord s m e
  show ?thesis by blast
qed

section \<open>Partial update of a reservation without its time\<close>

lemma validate_without_time:
  "d_time attrs = None \<Longrightarrow> validate today now attrs = Inl (Unhandled ''TypeError'')"
  by (simp add: validate_def past_time_check_def business_hours_check_def time_lt_def)

lemma to_internal_value_fields:
  "d_time (to_internal_value data) = d_time data"
  "d_date (to_internal_value data) = d_date data"
  "d_guests (to_internal_value data) = d_guests data"
  by (simp_all add: to_internal_value_def)

text \<open>
  C10 as stated does not hold for every PATCH without \<^verbatim>\<open>reservation_time\<close>: the
  lookup of the row and the validation of the fields come before \<^verbatim>\<open>validate\<close>. The
  claim's own example, a PATCH of \<^verbatim>\<open>number_of_guests\<close> alone, returns a validation
  outcome when the number is 25, and not-found when the reservation is of another user
  (the case of \<^verbatim>\<open>test_user_cannot_update_other_user_reservation\<close>).
\<close>

theorem patch_without_time_counterexample:
  "d_time \<lparr>d_name = None, d_guests = Some 25, d_date = None, d_time = None,
           d_special = None\<rparr> = None
   \<and> reservation_update True alice 5 0 1
        \<lparr>d_name = None, d_guests = Some 25, d_date = None, d_time = None, d_special = None\<rparr>
        shop
      = (Failed (Invalid [(''number_of_guests'',
           ''Number of guests cannot exceed 20. Please contact us for larger parties.'')]),
         shop)
   \<and> reservation_update True bob 5 0 1
        \<lparr>d_name = None, d_guests = Some 5, d_date = None, d_time = None, d_special = None\<rparr>
        shop
      = (Failed NotFound, shop)"
  by (simp add: reservation_update_def reservation_get_object_def reservation_queryset_def
      run_validation_def field_errors_def guests_errors_def date_errors_def
      required_error_def validate_number_of_guests_def shop_def alice_def bob_def)

text \<open>
  C10, amended. When the data of a reservation update has no \<^verbatim>\<open>reservation_time\<close>,
  the cross-field step \<^verbatim>\<open>validate\<close> compares \<^verbatim>\<open>None\<close> with a time and raises
  \<^verbatim>\<open>TypeError\<close>, whatever the other fields are. A PATCH without the time therefore
  ends as follows: not-found when the queryset of the user has no row with the key; the
  errors of the field step when a submitted field is invalid; the error of the
  unique-together validator when the owner of the row has another reservation at the
  submitted date (else the date of the row) and the time of the row; and the unhandled \<^verbatim>\<open>TypeError\<close> in every other case, that
  is whenever the row is found and the submitted fields are valid. It never succeeds,
  and the database is left as it was.
\<close>

theorem partial_update_without_time:
  assumes "d_time data = None"
  shows "validate today now (to_internal_value data) = Inl (Unhandled ''TypeError'')
     \<and> (reservation_get_object user pk s = None \<longrightarrow>
          reservation_update True user today now pk data s = (Failed NotFound, s))
     \<and> (\<forall>inst. reservation_get_object user pk s = Some inst \<longrightarrow>
          reservation_update True user today now pk data s =
            (if field_errors True today data \<noteq> [] then
               (Failed (Invalid (field_errors True today data)), s)
             else if unique_together_clash True user (Some inst) (to_internal_value data) s then
               (Failed UniqueViolation, s)
             else (Failed (Unhandled ''TypeError''), s)))
     \<and> fst (reservation_update True user today now pk data s) \<noteq> OK
     \<and> snd (reservation_update True user today now pk data s) = s"
proof -
  have v: "validate today now (to_internal_value data) = Inl (Unhandled ''TypeError'')"
    using assms by (simp add: validate_without_time to_internal_value_fields)
  have n: "reservation_update True user today now pk data s = (Failed NotFound, s)"
    if "reservation_get_object user pk s = None"
    using that by (simp add: reservation_update_def)
  have f: "reservation_update True user today now pk data s =
            (if field_errors True today data \<noteq> [] then
               (Failed (Invalid (field_errors True today data)), s)
             else if unique_together_clash True user (Some inst) (to_internal_value data) s then
               (Failed UniqueViolation, s)
             else (Failed (Unhandled ''TypeError''), s))"
    if "reservation_get_object user pk s = Some inst" for inst
    using that v by (simp add: reservation_update_def run_validation_def)
  have r: "fst (reservation_update True user today now pk data s) \<noteq> OK
     \<and> snd (reservation_update True user today now pk data s) = s"
  proof (cases "reservation_get_object user pk s")
    case None
    then show ?thesis by (simp add: n)
  next
    case (Some inst)
    then show ?thesis by (simp add: f)
  qed
  from v n f r show ?thesis by blast
qed

theorem partial_update_without_time_witness:
  "d_time \<lparr>d_name = None, d_guests = Some 3, d_date = None, d_time = None,
           d_special = Some ''window seat''\<rparr> = None
   \<and> reservation_get_object alice 1 shop
      = Some \<lparr>r_id = 1, r_user = 1, r_name = ''Alice Smith'', r_guests = 2, r_date = 10,
               r_time = time_hm 19 0, r_special = []\<rparr>
   \<and> field_errors True 5 \<lparr>d_name = None, d_guests = Some 3, d_date = None, d_time = None,
                            d_special = Some ''window seat''\<rparr> = []
   \<and> \<not> unique_together_clash True alice
          (Some \<lparr>r_id = 1, r_user = 1, r_name = ''Alice Smith'', r_guests = 2, r_date = 10,
                  r_time = time_hm 19 0, r_special = []\<rparr>)
          (to_internal_value \<lparr>d_name = None, d_guests = Some 3, d_date = None,
                               d_time = None, d_special = Some ''window seat''\<rparr>) shop
   \<and> reservation_update True alice 5 0 1
        \<lparr>d_name = None, d_guests = Some 3, d_date = None, d_time = None,
         d_special = Some ''window seat''\<rparr> shop
      = (Failed (Unhandled ''TypeError''), shop)"
proof -
  let ?d = "\<lparr>d_name = None, d_guests = Some 3, d_date = None, d_time = None,
             d_special = Some ''window seat''\<rparr>"
  let ?r = "\<lparr>r_id = 1, r_user = 1, r_name = ''Alice Smith'', r_guests = 2, r_date = 10,
             r_time = time_hm 19 0, r_special = []\<rparr>"
  have h: "d_time ?d = None" by simp
  have g: "reservation_get_object alice 1 shop = Some ?r"
    by (simp add: reservation_get_object_def reservation_queryset_def shop_def alice_def)
  have f: "field_errors True 5 ?d = []"
    by (simp add: field_errors_def guests_errors_def date_errors_def required_error_def
        validate_number_of_guests_def char_errors_def strip_def is_space_def)
  have c: "\<not> unique_together_clash True alice (Some ?r) (to_internal_value ?d) shop"
    by (simp add: unique_together_clash_def validator_user_def to_internal_value_def shop_def
        alice_def)
  from partial_update_without_time [OF h, of 5 0 alice 1 shop] g f c h show ?thesis
    by simp
qed

section \<open>The rules of a reservation\<close>

lemma guests_errors_Some:
  "d_guests data = Some g \<Longrightarrow>
   guests_errors partial data =
     (if g > 2147483647 then
        [(''number_of_guests'', ''Ensure this value is less than or equal to 2147483647.'')]
      else if g < 1 then
        [(''number_of_guests'', ''Ensure this value is greater than or equal to 1.'')]
      else if g > 20 then [(''number_of_guests'',
        ''Number of guests cannot exceed 20. Please contact us for larger parties.'')]
      else [])"
  by (simp add: guests_errors_def validate_number_of_guests_def)

lemma date_errors_Some:
  "d_date data = Some d \<Longrightarrow>
   date_errors partial today data =
     (if d < today then [(''reservation_date'', ''Reservation date cannot be in the past'')]
      else [])"
  by (simp add: date_errors_def validate_reservation_date_def)

lemma field_errors_full:
  "d_name data = Some n \<Longrightarrow> d_guests data = Some g \<Longrightarrow> d_date data = Some d
   \<Longrightarrow> d_time data = Some t \<Longrightarrow>
   field_errors False today data =
     char_errors ''name'' False True n
     @ guests_errors False data
     @ date_errors False today data
     @ (case d_special data of None \<Rightarrow> []
                             | Some v \<Rightarrow> char_errors ''special_requests'' True False v)"
  by (simp add: field_errors_def)

lemma char_errors_keys: "e \<in> set (char_errors f allow_blank limited v) \<Longrightarrow> fst e = f"
  by (auto simp add: char_errors_def split: if_splits)

lemma required_error_keys: "e \<in> set (required_error partial f) \<Longrightarrow> fst e = f"
  by (simp add: required_error_def split: if_splits)

lemma guests_errors_keys:
  "e \<in> set (guests_errors partial data) \<Longrightarrow> fst e = ''number_of_guests''"
  by (cases "d_guests data")
    (auto simp add: guests_errors_def validate_number_of_guests_def
      dest: required_error_keys split: if_splits)

lemma date_errors_keys:
  "e \<in> set (date_errors partial today data) \<Longrightarrow> fst e = ''reservation_date''"
  by (cases "d_date data")
    (auto simp add: date_errors_def validate_reservation_date_def
      dest: required_error_keys split: if_splits)

lemma field_errors_keys:
  assumes "e \<in> set (field_errors partial today data)"
  shows "fst e \<in> {''name'', ''number_of_guests'', ''reservation_date'', ''reservation_time'',
         ''special_requests''}"
proof -
  from assms consider
      "e \<in> set (case d_name data of None \<Rightarrow> required_error partial ''name''
                         | Some v \<Rightarrow> char_errors ''name'' False True v)"
    | "e \<in> set (guests_errors partial data)"
    | "e \<in> set (date_errors partial today data)"
    | "e \<in> set (case d_time data of None \<Rightarrow> required_error partial ''reservation_time''
                          | Some _ \<Rightarrow> [])"
    | "e \<in> set (case d_special data of None \<Rightarrow> []
             | Some v \<Rightarrow> char_errors ''special_requests'' True False v)"
    unfolding field_errors_def set_append by blast
  then show ?thesis
  proof cases
    case 1
    then have "fst e = ''name''"
      by (cases "d_name data") (auto dest: required_error_keys char_errors_keys)
    then show ?thesis by (rule ssubst) (rule insertI1)
  next
    case 2
    then have "fst e = ''number_of_guests''" by (rule guests_errors_keys)
    then show ?thesis by (rule ssubst) (intro insertI1 insertI2)
  next
    case 3
    then have "fst e = ''reservation_date''" by (rule date_errors_keys)
    then show ?thesis by (rule ssubst) (intro insertI1 insertI2)
  next
    case 4
    then have "fst e = ''reservation_time''"
      by (cases "d_time data") (auto dest: required_error_keys)
    then show ?thesis by (rule ssubst) (intro insertI1 insertI2)
  next
    case 5
    then have "fst e = ''special_requests''"
      by (cases "d_special data") (auto dest: char_errors_keys)
    then show ?thesis by (rule ssubst) (intro insertI1 insertI2)
  qed
qed

lemma field_errors_keys_sub:
  "fst ` set (field_errors partial today data)
     \<subseteq> {''name'', ''number_of_guests'', ''reservation_date'', ''reservation_time'',
         ''special_requests''}"
  using field_errors_keys by (intro subsetI) (erule imageE, blast)

lemma validate_full:
  "d_date attrs = Some d \<Longrightarrow> d_time attrs = Some t \<Longrightarrow>
   validate today now attrs =
     (if d = today \<and> t < now then
        Inl (Invalid [(''reservation_time'', ''Reservation time cannot be in the past'')])
      else if t < time_hm 11 0 \<or> t > time_hm 22 0 then
        Inl (Invalid [(''reservation_time'',
          ''Reservations are only available between 11:00 AM and 10:00 PM'')])
      else Inr attrs)"
  by (simp add: validate_def past_time_check_def business_hours_check_def time_lt_def
      time_gt_def opening_time_def closing_time_def)

lemma clash_create:
  "d_date data = Some d \<Longrightarrow> d_time data = Some t \<Longrightarrow>
   unique_together_clash False user None (to_internal_value data) s
     = (\<exists>x \<in> set (reservations s). r_user x = u_id user \<and> r_date x = d \<and> r_time x = t)"
  by (simp add: unique_together_clash_def validator_user_def to_internal_value_def)

lemma accepted_only_if:
  assumes "d_guests data = Some g" "d_date data = Some d" "d_time data = Some t"
    and a: "run_validation False user None today now data s = Inr attrs"
  shows "spec_accepts today now g d t \<and> attrs = to_internal_value data
     \<and> field_errors False today data = []
     \<and> \<not> unique_together_clash False user None (to_internal_value data) s"
proof -
  from a have f: "field_errors False today data = []"
    and c: "\<not> unique_together_clash False user None (to_internal_value data) s"
    and v: "validate today now (to_internal_value data) = Inr attrs"
    by (simp_all add: run_validation_def split: if_splits)
  from f have "guests_errors False data = []" "date_errors False today data = []"
    by (simp_all add: field_errors_def)
  then have gd: "1 \<le> g \<and> g \<le> 20 \<and> \<not> d < today"
    using assms(1,2) by (simp add: guests_errors_Some date_errors_Some split: if_splits)
  from v have "\<not> (d = today \<and> t < now) \<and> time_hm 11 0 \<le> t \<and> t \<le> time_hm 22 0
      \<and> attrs = to_internal_value data"
    using assms(2,3)
    by (auto simp add: validate_full [of _ d t] to_internal_value_fields split: if_splits)
  with gd f c show ?thesis by (simp add: spec_accepts_def)
qed

text \<open>
  C9 as stated does not hold in its second half. A request that breaks two rules gets
  the error of one of them only: with no guests and a time before the opening, the
  answer carries the error of the number of guests (in the words of the framework, whose
  minimum is checked before \<^verbatim>\<open>validate_number_of_guests\<close>) and nothing about the time,
  because \<^verbatim>\<open>validate\<close> runs only after the field step has passed. And a request for
  today at a time that has passed, in a slot that the user has already reserved, gets
  the error of the unique-together validator, which is not an error of a field.
\<close>

theorem reservation_errors_counterexample:
  "\<not> (1::int) \<le> 0 \<and> time_hm 9 0 < time_hm 11 0
   \<and> reservation_create bob 10 (time_hm 8 0)
        \<lparr>d_name = Some ''Bob Johnson'', d_guests = Some 0, d_date = Some 12,
         d_time = Some (time_hm 9 0), d_special = None\<rparr> shop
      = (Failed (Invalid [(''number_of_guests'',
                           ''Ensure this value is greater than or equal to 1.'')]), shop)
   \<and> time_hm 19 0 < time_hm 20 0
   \<and> reservation_create alice 10 (time_hm 20 0)
        \<lparr>d_name = Some ''Alice Smith'', d_guests = Some 2, d_date = Some 10,
         d_time = Some (time_hm 19 0), d_special = None\<rparr> shop
      = (Failed UniqueViolation, shop)"
proof -
  have a: "time_hm 9 0 < time_hm 11 0" "time_hm 19 0 < time_hm 20 0"
    by (simp_all add: time_hm_def)
  have b: "reservation_create bob 10 (time_hm 8 0)
        \<lparr>d_name = Some ''Bob Johnson'', d_guests = Some 0, d_date = Some 12,
         d_time = Some (time_hm 9 0), d_special = None\<rparr> shop
      = (Failed (Invalid [(''number_of_guests'',
                           ''Ensure this value is greater than or equal to 1.'')]), shop)"
    by (simp add: reservation_create_def run_validation_def field_errors_def
        guests_errors_def date_errors_def validate_reservation_date_def char_errors_def
        strip_def is_space_def)
  have c: "reservation_create alice 10 (time_hm 20 0)
        \<lparr>d_name = Some ''Alice Smith'', d_guests = Some 2, d_date = Some 10,
         d_time = Some (time_hm 19 0), d_special = None\<rparr> shop
      = (Failed UniqueViolation, shop)"
    by (simp add: reservation_create_def run_validation_def field_errors_def
        guests_errors_def date_errors_def validate_reservation_date_def
        validate_number_of_guests_def char_errors_def strip_def is_space_def
        unique_together_clash_def validator_user_def to_internal_value_def shop_def
        alice_def)
  from a b c show ?thesis by simp
qed

text \<open>
  C9, amended. For a request to create a reservation that carries name, guests, date
  and time:

  \<^item> it is accepted by the validation, and a row is created, only if it keeps the rules
    of the specification (1 to 20 guests, a date not before today, not today at a time
    before now, a time from 11:00 to 22:00 with both bounds);
  \<^item> it is accepted, and the row is created, if it keeps these rules and moreover the
    name is not blank and not too long, the special requests are well-formed, and the
    user has no reservation at that date and time;
  \<^item> a number of guests below 1 or above 20, and a date before today, are each
    reported under the name of the field, whatever else is wrong with the request: a
    number below 1 with the message of the framework for the minimum of the field, a
    number above 20 with the message of \<^verbatim>\<open>validate_number_of_guests\<close>;
  \<^item> the rules on the time are checked only when no field has an error and the slot is
    free: then a time today before now, and otherwise a time outside the business
    hours, is reported under \<^verbatim>\<open>reservation_time\<close>; when no field has an error and the
    slot is taken, the request ends in the error of the unique-together validator;
  \<^item> a request that breaks a rule is never accepted and never ends in an exception:
    it ends in errors under field names, or in the error of the unique-together
    validator.
\<close>

theorem reservation_rules:
  assumes "d_name data = Some n" "d_guests data = Some g" "d_date data = Some d"
    "d_time data = Some t"
  shows "((\<exists>attrs. run_validation False user None today now data s = Inr attrs)
            \<longrightarrow> spec_accepts today now g d t)
    \<and> (fst (reservation_create user today now data s) = Created
          \<longrightarrow> spec_accepts today now g d t)
    \<and> (spec_accepts today now g d t
        \<and> char_errors ''name'' False True n = []
        \<and> (\<forall>v. d_special data = Some v \<longrightarrow> char_errors ''special_requests'' True False v = [])
        \<and> \<not> (\<exists>x \<in> set (reservations s). r_user x = u_id user \<and> r_date x = d \<and> r_time x = t)
          \<longrightarrow> run_validation False user None today now data s = Inr (to_internal_value data)
            \<and> reservation_create user today now data s
              = (Created,
                 s\<lparr>reservations := reservations s
                      @ [\<lparr>r_id = next_reservation s, r_user = u_id user, r_name = strip n,
                          r_guests = g, r_date = d, r_time = t,
                          r_special = (case d_special data of None \<Rightarrow> []
                                                            | Some v \<Rightarrow> strip v)\<rparr>],
                   next_reservation := Suc (next_reservation s)\<rparr>))
    \<and> (g < 1 \<longrightarrow>
          run_validation False user None today now data s
            = Inl (Invalid (field_errors False today data))
          \<and> (''number_of_guests'', ''Ensure this value is greater than or equal to 1.'')
              \<in> set (field_errors False today data))
    \<and> (20 < g \<longrightarrow>
          run_validation False user None today now data s
            = Inl (Invalid (field_errors False today data))
          \<and> (\<exists>m. (''number_of_guests'', m) \<in> set (field_errors False today data))
          \<and> (g \<le> 2147483647 \<longrightarrow>
                (''number_of_guests'',
                 ''Number of guests cannot exceed 20. Please contact us for larger parties.'')
                \<in> set (field_errors False today data)))
    \<and> (d < today \<longrightarrow>
          run_validation False user None today now data s
            = Inl (Invalid (field_errors False today data))
          \<and> (''reservation_date'', ''Reservation date cannot be in the past'')
              \<in> set (field_errors False today data))
    \<and> (field_errors False today data = []
        \<and> \<not> (\<exists>x \<in> set (reservations s). r_user x = u_id user \<and> r_date x = d \<and> r_time x = t)
        \<and> d = today \<and> t < now
          \<longrightarrow> run_validation False user None today now data s
              = Inl (Invalid [(''reservation_time'',
                               ''Reservation time cannot be in the past'')]))
    \<and> (field_errors False today data = []
        \<and> \<not> (\<exists>x \<in> set (reservations s). r_user x = u_id user \<and> r_date x = d \<and> r_time x = t)
        \<and> \<not> (d = today \<and> t < now) \<and> (t < time_hm 11 0 \<or> time_hm 22 0 < t)
          \<longrightarrow> run_validation False user None today now data s
              = Inl (Invalid [(''reservation_time'',
                   ''Reservations are only available between 11:00 AM and 10:00 PM'')]))
    \<and> (field_errors False today data = []
        \<and> (\<exists>x \<in> set (reservations s). r_user x = u_id user \<and> r_date x = d \<and> r_time x = t)
          \<longrightarrow> run_validation False user None today now data s = Inl UniqueViolation)
    \<and> (\<not> spec_accepts today now g d t
          \<longrightarrow> snd (reservation_create user today now data s) = s
            \<and> (run_validation False user None today now data s = Inl UniqueViolation
               \<or> (\<exists>errs. run_validation False user None today now data s
                            = Inl (Invalid errs)
                    \<and> errs \<noteq> []
                    \<and> fst ` set errs
                       \<subseteq> {''name'', ''number_of_guests'', ''reservation_date'',
                           ''reservation_time'', ''special_requests''})))"
proof -
  note fe = field_errors_full [OF assms, of today]
    and ge = guests_errors_Some [OF assms(2), of False]
    and de = date_errors_Some [OF assms(3), of False today]
    and va = validate_full [of "to_internal_value data" d t today now]
    and cl = clash_create [OF assms(3,4), of user s]
  have dt: "d_date (to_internal_value data) = Some d" "d_time (to_internal_value data) = Some t"
    using assms by (simp_all add: to_internal_value_fields)
  note va' = va [OF dt]
  have c1: "(\<exists>attrs. run_validation False user None today now data s = Inr attrs)
            \<longrightarrow> spec_accepts today now g d t"
    using accepted_only_if [OF assms(2-4)] by blast
  have c2: "fst (reservation_create user today now data s) = Created
          \<longrightarrow> spec_accepts today now g d t"
  proof
    assume c: "fst (reservation_create user today now data s) = Created"
    then have "\<exists>attrs. run_validation False user None today now data s = Inr attrs"
      by (cases "run_validation False user None today now data s")
        (simp_all add: reservation_create_def)
    with c1 show "spec_accepts today now g d t" by blast
  qed
  have c3: "spec_accepts today now g d t
        \<and> char_errors ''name'' False True n = []
        \<and> (\<forall>v. d_special data = Some v \<longrightarrow> char_errors ''special_requests'' True False v = [])
        \<and> \<not> (\<exists>x \<in> set (reservations s). r_user x = u_id user \<and> r_date x = d \<and> r_time x = t)
          \<longrightarrow> run_validation False user None today now data s = Inr (to_internal_value data)
            \<and> reservation_create user today now data s
              = (Created,
                 s\<lparr>reservations := reservations s
                      @ [\<lparr>r_id = next_reservation s, r_user = u_id user, r_name = strip n,
                          r_guests = g, r_date = d, r_time = t,
                          r_special = (case d_special data of None \<Rightarrow> []
                                                            | Some v \<Rightarrow> strip v)\<rparr>],
                   next_reservation := Suc (next_reservation s)\<rparr>)"
  proof (intro impI, elim conjE)
    assume sp: "spec_accepts today now g d t"
      and nm: "char_errors ''name'' False True n = []"
      and sr: "\<forall>v. d_special data = Some v \<longrightarrow> char_errors ''special_requests'' True False v = []"
      and nc: "\<not> (\<exists>x \<in> set (reservations s). r_user x = u_id user \<and> r_date x = d \<and> r_time x = t)"
    from sr have sr': "(case d_special data of None \<Rightarrow> []
        | Some v \<Rightarrow> char_errors ''special_requests'' True False v) = []"
      by (cases "d_special data") simp_all
    from sp have f: "field_errors False today data = []"
      by (simp add: fe ge de nm sr' spec_accepts_def)
    from sp have v: "validate today now (to_internal_value data) = Inr (to_internal_value data)"
      by (auto simp add: va' spec_accepts_def)
    from f v nc have r: "run_validation False user None today now data s
        = Inr (to_internal_value data)"
      by (simp add: run_validation_def cl)
    have "reservation_create user today now data s
              = (Created,
                 s\<lparr>reservations := reservations s
                      @ [\<lparr>r_id = next_reservation s, r_user = u_id user, r_name = strip n,
                          r_guests = g, r_date = d, r_time = t,
                          r_special = (case d_special data of None \<Rightarrow> []
                                                            | Some v \<Rightarrow> strip v)\<rparr>],
                   next_reservation := Suc (next_reservation s)\<rparr>)"
      using nc assms
      by (cases "d_special data")
        (simp_all add: reservation_create_def r to_internal_value_def reservation_clash_def
          Let_def)
    with r show "run_validation False user None today now data s = Inr (to_internal_value data)
            \<and> reservation_create user today now data s
              = (Created,
                 s\<lparr>reservations := reservations s
                      @ [\<lparr>r_id = next_reservation s, r_user = u_id user, r_name = strip n,
                          r_guests = g, r_date = d, r_time = t,
                          r_special = (case d_special data of None \<Rightarrow> []
                                                            | Some v \<Rightarrow> strip v)\<rparr>],
                   next_reservation := Suc (next_reservation s)\<rparr>)"
      by simp
  qed
  have c4: "g < 1 \<longrightarrow>
          run_validation False user None today now data s
            = Inl (Invalid (field_errors False today data))
          \<and> (''number_of_guests'', ''Ensure this value is greater than or equal to 1.'')
              \<in> set (field_errors False today data)"
    by (simp add: run_validation_def fe ge)
  have c5: "20 < g \<longrightarrow>
          run_validation False user None today now data s
            = Inl (Invalid (field_errors False today data))
          \<and> (\<exists>m. (''number_of_guests'', m) \<in> set (field_errors False today data))
          \<and> (g \<le> 2147483647 \<longrightarrow>
                (''number_of_guests'',
                 ''Number of guests cannot exceed 20. Please contact us for larger parties.'')
                \<in> set (field_errors False today data))"
  proof
    assume g: "20 < g"
    have e: "(''number_of_guests'',
        if g \<le> 2147483647 then
          ''Number of guests cannot exceed 20. Please contact us for larger parties.''
        else ''Ensure this value is less than or equal to 2147483647.'')
        \<in> set (guests_errors False data)"
      using g by (simp add: ge)
    then have m: "(''number_of_guests'',
        if g \<le> 2147483647 then
          ''Number of guests cannot exceed 20. Please contact us for larger parties.''
        else ''Ensure this value is less than or equal to 2147483647.'')
        \<in> set (field_errors False today data)"
      by (simp add: fe)
    then have ne: "field_errors False today data \<noteq> []" by auto
    then have r: "run_validation False user None today now data s
            = Inl (Invalid (field_errors False today data))"
      by (simp add: run_validation_def)
    from m have x: "\<exists>m. (''number_of_guests'', m) \<in> set (field_errors False today data)"
      by blast
    from m have y: "g \<le> 2147483647 \<longrightarrow>
                (''number_of_guests'',
                 ''Number of guests cannot exceed 20. Please contact us for larger parties.'')
                \<in> set (field_errors False today data)"
      by (cases "g \<le> 2147483647") simp_all
    from r x y show "run_validation False user None today now data s
            = Inl (Invalid (field_errors False today data))
          \<and> (\<exists>m. (''number_of_guests'', m) \<in> set (field_errors False today data))
          \<and> (g \<le> 2147483647 \<longrightarrow>
                (''number_of_guests'',
                 ''Number of guests cannot exceed 20. Please contact us for larger parties.'')
                \<in> set (field_errors False today data))"
      by (intro conjI)
  qed
  have c6: "d < today \<longrightarrow>
          run_validation False user None today now data s
            = Inl (Invalid (field_errors False today data))
          \<and> (''reservation_date'', ''Reservation date cannot be in the past'')
              \<in> set (field_errors False today data)"
    by (simp add: run_validation_def fe de)
  have c7: "field_errors False today data = []
        \<and> \<not> (\<exists>x \<in> set (reservations s). r_user x = u_id user \<and> r_date x = d \<and> r_time x = t)
        \<and> d = today \<and> t < now
          \<longrightarrow> run_validation False user None today now data s
              = Inl (Invalid [(''reservation_time'',
                               ''Reservation time cannot be in the past'')])"
    by (auto simp add: run_validation_def cl va')
  have c8: "field_errors False today data = []
        \<and> \<not> (\<exists>x \<in> set (reservations s). r_user x = u_id user \<and> r_date x = d \<and> r_time x = t)
        \<and> \<not> (d = today \<and> t < now) \<and> (t < time_hm 11 0 \<or> time_hm 22 0 < t)
          \<longrightarrow> run_validation False user None today now data s
              = Inl (Invalid [(''reservation_time'',
                   ''Reservations are only available between 11:00 AM and 10:00 PM'')])"
    by (auto simp add: run_validation_def cl va')
  have c9: "field_errors False today data = []
        \<and> (\<exists>x \<in> set (reservations s). r_user x = u_id user \<and> r_date x = d \<and> r_time x = t)
          \<longrightarrow> run_validation False user None today now data s = Inl UniqueViolation"
    by (simp add: run_validation_def cl)
  have c10: "\<not> spec_accepts today now g d t
          \<longrightarrow> snd (reservation_create user today now data s) = s
            \<and> (run_validation False user None today now data s = Inl UniqueViolation
               \<or> (\<exists>errs. run_validation False user None today now data s
                            = Inl (Invalid errs)
                    \<and> errs \<noteq> []
                    \<and> fst ` set errs
                       \<subseteq> {''name'', ''number_of_guests'', ''reservation_date'',
                           ''reservation_time'', ''special_requests''}))"
  proof
    assume ns: "\<not> spec_accepts today now g d t"
    show "snd (reservation_create user today now data s) = s
            \<and> (run_validation False user None today now data s = Inl UniqueViolation
               \<or> (\<exists>errs. run_validation False user None today now data s
                            = Inl (Invalid errs)
                    \<and> errs \<noteq> []
                    \<and> fst ` set errs
                       \<subseteq> {''name'', ''number_of_guests'', ''reservation_date'',
                           ''reservation_time'', ''special_requests''}))"
    proof (cases "field_errors False today data = []")
      case False
      then have r: "run_validation False user None today now data s
          = Inl (Invalid (field_errors False today data))"
        by (simp add: run_validation_def)
      from r have "snd (reservation_create user today now data s) = s"
        by (simp add: reservation_create_def)
      with r False field_errors_keys_sub [of False today data] show ?thesis by blast
    next
      case True
      note f = this
      show ?thesis
      proof (cases "unique_together_clash False user None (to_internal_value data) s")
        case True
        with f have r: "run_validation False user None today now data s = Inl UniqueViolation"
          by (simp add: run_validation_def)
        then show ?thesis by (simp add: reservation_create_def)
      next
        case False
        from f have "guests_errors False data = []" "date_errors False today data = []"
          by (simp_all add: field_errors_def)
        then have gd: "1 \<le> g \<and> g \<le> 20 \<and> \<not> d < today"
          by (simp add: ge de split: if_splits)
        with ns have tm: "(d = today \<and> t < now) \<or> t < time_hm 11 0 \<or> time_hm 22 0 < t"
          by (auto simp add: spec_accepts_def)
        from f False have r: "run_validation False user None today now data s
            = validate today now (to_internal_value data)"
          by (simp add: run_validation_def)
        from tm have "\<exists>m. validate today now (to_internal_value data)
            = Inl (Invalid [(''reservation_time'', m)])"
          by (auto simp add: va')
        then obtain m where v: "validate today now (to_internal_value data)
            = Inl (Invalid [(''reservation_time'', m)])" by blast
        from r v have "snd (reservation_create user today now data s) = s"
          by (simp add: reservation_create_def)
        moreover have "fst ` set [(''reservation_time'', m)]
                       \<subseteq> {''name'', ''number_of_guests'', ''reservation_date'',
                           ''reservation_time'', ''special_requests''}"
          by simp
        with r v have "\<exists>errs. run_validation False user None today now data s
                            = Inl (Invalid errs)
                    \<and> errs \<noteq> []
                    \<and> fst ` set errs
                       \<subseteq> {''name'', ''number_of_guests'', ''reservation_date'',
                           ''reservation_time'', ''special_requests''}"
          by (intro exI [of _ "[(''reservation_time'', m)]"]) simp
        ultimately show ?thesis by blast
      qed
    qed
  qed
  from c1 c2 c3 c4 c5 c6 c7 c8 c9 c10 show ?thesis by (intro conjI)
qed

theorem reservation_rules_witness:
  "d_name \<lparr>d_name = Some ''Bob Johnson'', d_guests = Some 4, d_date = Some 12,
           d_time = Some (time_hm 20 0), d_special = Some ''Vegetarian menu''\<rparr>
     = Some ''Bob Johnson''
   \<and> d_guests \<lparr>d_name = Some ''Bob Johnson'', d_guests = Some 4, d_date = Some 12,
           d_time = Some (time_hm 20 0), d_special = Some ''Vegetarian menu''\<rparr> = Some 4
   \<and> d_date \<lparr>d_name = Some ''Bob Johnson'', d_guests = Some 4, d_date = Some 12,
           d_time = Some (time_hm 20 0), d_special = Some ''Vegetarian menu''\<rparr> = Some 12
   \<and> d_time \<lparr>d_name = Some ''Bob Johnson'', d_guests = Some 4, d_date = Some 12,
           d_time = Some (time_hm 20 0), d_special = Some ''Vegetarian menu''\<rparr>
     = Some (time_hm 20 0)
   \<and> spec_accepts 10 (time_hm 9 0) 4 12 (time_hm 20 0)
   \<and> char_errors ''name'' False True ''Bob Johnson'' = []
   \<and> char_errors ''special_requests'' True False ''Vegetarian menu'' = []
   \<and> filter (\<lambda>x. r_user x = u_id bob \<and> r_date x = 12 \<and> r_time x = time_hm 20 0)
        (reservations shop) = []
   \<and> reservation_create bob 10 (time_hm 9 0)
        \<lparr>d_name = Some ''Bob Johnson'', d_guests = Some 4, d_date = Some 12,
         d_time = Some (time_hm 20 0), d_special = Some ''Vegetarian menu''\<rparr> shop
      = (Created,
         shop\<lparr>reservations := reservations shop
                @ [\<lparr>r_id = 2, r_user = 2, r_name = ''Bob Johnson'', r_guests = 4,
                    r_date = 12, r_time = time_hm 20 0, r_special = ''Vegetarian menu''\<rparr>],
              next_reservation := 3\<rparr>)"
proof -
  let ?d = "\<lparr>d_name = Some ''Bob Johnson'', d_guests = Some 4, d_date = Some 12,
             d_time = Some (time_hm 20 0), d_special = Some ''Vegetarian menu''\<rparr>"
  have n: "d_name ?d = Some ''Bob Johnson''" and g: "d_guests ?d = Some 4"
    and d: "d_date ?d = Some 12" and t: "d_time ?d = Some (time_hm 20 0)"
    by simp_all
  have ok: "spec_accepts 10 (time_hm 9 0) 4 12 (time_hm 20 0)"
    by (simp add: spec_accepts_def time_hm_def)
  have c: "char_errors ''name'' False True ''Bob Johnson'' = []"
    "char_errors ''special_requests'' True False ''Vegetarian menu'' = []"
    by (simp_all add: char_errors_def strip_def is_space_def)
  have st: "strip ''Bob Johnson'' = ''Bob Johnson''"
    "strip ''Vegetarian menu'' = ''Vegetarian menu''"
    by (simp_all add: strip_def is_space_def)
  have f: "filter (\<lambda>x. r_user x = u_id bob \<and> r_date x = 12 \<and> r_time x = time_hm 20 0)
        (reservations shop) = []"
    by (simp add: shop_def bob_def)
  then have nc: "\<not> (\<exists>x \<in> set (reservations shop).
      r_user x = u_id bob \<and> r_date x = 12 \<and> r_time x = time_hm 20 0)"
    by (simp add: filter_empty_conv)
  have sp: "\<forall>v. d_special ?d = Some v \<longrightarrow> char_errors ''special_requests'' True False v = []"
    using c by simp
  from reservation_rules [OF n g d t, of bob 10 "time_hm 9 0" shop] ok c(1) sp nc
  have "reservation_create bob 10 (time_hm 9 0) ?d shop
      = (Created,
         shop\<lparr>reservations := reservations shop
                @ [\<lparr>r_id = next_reservation shop, r_user = u_id bob,
                    r_name = strip ''Bob Johnson'', r_guests = 4,
                    r_date = 12, r_time = time_hm 20 0,
                    r_special = (case d_special ?d of None \<Rightarrow> [] | Some v \<Rightarrow> strip v)\<rparr>],
              next_reservation := Suc (next_reservation shop)\<rparr>)"
    by blast
  also have "\<dots> = (Created,
         shop\<lparr>reservations := reservations shop
                @ [\<lparr>r_id = 2, r_user = 2, r_name = ''Bob Johnson'', r_guests = 4,
                    r_date = 12, r_time = time_hm 20 0, r_special = ''Vegetarian menu''\<rparr>],
              next_reservation := 3\<rparr>)"
    by (simp add: st) (simp add: shop_def bob_def)
  finally have r: "reservation_create bob 10 (time_hm 9 0) ?d shop
      = (Created,
         shop\<lparr>reservations := reservations shop
                @ [\<lparr>r_id = 2, r_user = 2, r_name = ''Bob Johnson'', r_guests = 4,
                    r_date = 12, r_time = time_hm 20 0, r_special = ''Vegetarian menu''\<rparr>],
              next_reservation := 3\<rparr>)" .
  from n g d t ok c f r show ?thesis by (intro conjI)
qed

section \<open>One cart row per user and menu item\<close>

lemma cart_wf_filter:
  assumes w: "cart_wf s" and c: "carts t = filter P (carts s)"
    and n: "next_cart t = next_cart s"
  shows "cart_wf t"
proof -
  from w have "distinct (map c_id (carts s))" by (simp add: cart_wf_def)
  then have a: "distinct (map c_id (carts t))"
    by (simp add: c distinct_map_filter)
  have sub: "set (carts t) \<subseteq> set (carts s)"
    by (simp add: c)
  from w have "\<forall>c \<in> set (carts s). c_id c < next_cart s" by (simp add: cart_wf_def)
  with sub n have b: "\<forall>c \<in> set (carts t). c_id c < next_cart t" by auto
  from w have "\<forall>x \<in> set (carts s). \<forall>y \<in> set (carts s).
      c_id x \<noteq> c_id y \<longrightarrow> \<not> (c_user x = c_user y \<and> c_menuitem x = c_menuitem y)"
    by (simp add: cart_wf_def)
  with sub have d: "\<forall>x \<in> set (carts t). \<forall>y \<in> set (carts t).
      c_id x \<noteq> c_id y \<longrightarrow> \<not> (c_user x = c_user y \<and> c_menuitem x = c_menuitem y)"
    by blast
  from a b d show ?thesis by (simp add: cart_wf_def)
qed

lemma cart_wf_same:
  assumes "cart_wf s" "carts t = carts s" "next_cart t = next_cart s"
  shows "cart_wf t"
  using assms by (simp add: cart_wf_def)

lemma cart_serializer_update_keeps:
  "c_id (cart_serializer_update inst vd) = c_id inst
   \<and> c_user (cart_serializer_update inst vd) = c_user inst"
  by (simp add: cart_serializer_update_def Let_def split: option.splits)

lemma cart_create_wf: "cart_wf s \<Longrightarrow> cart_wf (snd (cart_create user data s))"
proof -
  assume w: "cart_wf s"
  show ?thesis
  proof (cases "fst (cart_create user data s) = Created")
    case False
    then have "snd (cart_create user data s) = s"
      by (auto simp add: cart_create_def split: if_splits sum.splits)
    with w show ?thesis by simp
  next
    case True
    then obtain r where
      r: "cart_serializer_create (next_cart s) (u_id user) (cart_validated data s) = Inr r"
      and nc: "\<not> cart_clash r (carts s)"
      and t: "snd (cart_create user data s)
          = s\<lparr>carts := carts s @ [r], next_cart := Suc (next_cart s)\<rparr>"
      by (auto simp add: cart_create_def split: if_splits sum.splits)
    from r have id: "c_id r = next_cart s"
      by (auto simp add: cart_serializer_create_def split: option.splits)
    from w have lt: "\<forall>c \<in> set (carts s). c_id c < next_cart s"
      by (simp add: cart_wf_def)
    then have fresh: "next_cart s \<notin> c_id ` set (carts s)" by auto
    from w have "distinct (map c_id (carts s))" by (simp add: cart_wf_def)
    with fresh id have a: "distinct (map c_id (carts s @ [r]))" by simp
    from lt id have b: "\<forall>c \<in> set (carts s @ [r]). c_id c < Suc (next_cart s)"
      by (auto simp add: less_Suc_eq)
    from w have u: "\<forall>x \<in> set (carts s). \<forall>y \<in> set (carts s).
        c_id x \<noteq> c_id y \<longrightarrow> \<not> (c_user x = c_user y \<and> c_menuitem x = c_menuitem y)"
      by (simp add: cart_wf_def)
    from nc have v: "\<forall>x \<in> set (carts s). \<not> (c_user x = c_user r \<and> c_menuitem x = c_menuitem r)"
      by (simp add: cart_clash_def)
    have c: "\<not> (c_user x = c_user y \<and> c_menuitem x = c_menuitem y)"
      if "x \<in> set (carts s @ [r])" "y \<in> set (carts s @ [r])" "c_id x \<noteq> c_id y" for x y
    proof -
      from that consider "x \<in> set (carts s)" "y \<in> set (carts s)"
        | "x \<in> set (carts s)" "y = r" | "x = r" "y \<in> set (carts s)"
        by auto
      then show ?thesis
      proof cases
        case 1
        with u that(3) show ?thesis by blast
      next
        case 2
        with v show ?thesis by blast
      next
        case 3
        with v show ?thesis by metis
      qed
    qed
    from a b c have "cart_wf (s\<lparr>carts := carts s @ [r], next_cart := Suc (next_cart s)\<rparr>)"
      unfolding cart_wf_def by (simp del: set_append)
    with t show ?thesis by simp
  qed
qed

lemma cart_update_wf: "cart_wf s \<Longrightarrow> cart_wf (snd (cart_update partial user pk data s))"
proof -
  assume w: "cart_wf s"
  show ?thesis
  proof (cases "fst (cart_update partial user pk data s) = OK")
    case False
    then have "snd (cart_update partial user pk data s) = s"
      by (auto simp add: cart_update_def Let_def split: if_splits option.splits)
    with w show ?thesis by simp
  next
    case True
    then obtain inst r where r: "r = cart_serializer_update inst (cart_validated data s)"
      and nc: "\<not> cart_clash r (filter (\<lambda>x. c_id x \<noteq> c_id inst) (carts s))"
      and t: "snd (cart_update partial user pk data s)
          = s\<lparr>carts := map (\<lambda>x. if c_id x = c_id inst then r else x) (carts s)\<rparr>"
      by (auto simp add: cart_update_def Let_def split: if_splits option.splits)
    define f where "f = (\<lambda>x. if c_id x = c_id inst then r else x)"
    from r have id: "c_id r = c_id inst"
      by (simp add: cart_serializer_update_keeps)
    then have fid: "c_id (f x) = c_id x" for x
      by (simp add: f_def)
    then have ids: "map c_id (map f (carts s)) = map c_id (carts s)"
      by simp
    from w have "distinct (map c_id (carts s))" by (simp add: cart_wf_def)
    then have a: "distinct (map c_id (map f (carts s)))"
      by (simp only: ids)
    from w have "\<forall>c \<in> set (carts s). c_id c < next_cart s" by (simp add: cart_wf_def)
    then have b: "\<forall>c \<in> set (map f (carts s)). c_id c < next_cart s"
      by (simp add: fid)
    from w have u: "\<forall>x \<in> set (carts s). \<forall>y \<in> set (carts s).
        c_id x \<noteq> c_id y \<longrightarrow> \<not> (c_user x = c_user y \<and> c_menuitem x = c_menuitem y)"
      by (simp add: cart_wf_def)
    from nc have v: "\<forall>x \<in> set (carts s). c_id x \<noteq> c_id inst
        \<longrightarrow> \<not> (c_user x = c_user r \<and> c_menuitem x = c_menuitem r)"
      by (auto simp add: cart_clash_def)
    have c: "\<not> (c_user (f x) = c_user (f y) \<and> c_menuitem (f x) = c_menuitem (f y))"
      if x: "x \<in> set (carts s)" and y: "y \<in> set (carts s)" and d: "c_id x \<noteq> c_id y" for x y
    proof (cases "c_id x = c_id inst")
      case True
      with d have "c_id y \<noteq> c_id inst" by simp
      with True v y show ?thesis by (simp add: f_def) metis
    next
      case False
      note xi = this
      show ?thesis
      proof (cases "c_id y = c_id inst")
        case True
        with xi v x show ?thesis by (simp add: f_def)
      next
        case False
        with xi u x y d show ?thesis by (simp add: f_def)
      qed
    qed
    have "\<forall>x \<in> set (map f (carts s)). \<forall>y \<in> set (map f (carts s)).
        c_id x \<noteq> c_id y \<longrightarrow> \<not> (c_user x = c_user y \<and> c_menuitem x = c_menuitem y)"
    proof (intro ballI impI)
      fix x' y' assume "x' \<in> set (map f (carts s))" "y' \<in> set (map f (carts s))"
        and d: "c_id x' \<noteq> c_id y'"
      then obtain x y where "x \<in> set (carts s)" "y \<in> set (carts s)" "x' = f x" "y' = f y"
        by auto
      with d c [of x y] show "\<not> (c_user x' = c_user y' \<and> c_menuitem x' = c_menuitem y')"
        by (simp add: fid)
    qed
    with a b have "cart_wf (s\<lparr>carts := map f (carts s)\<rparr>)"
      unfolding cart_wf_def by simp
    then show ?thesis
      unfolding t f_def .
  qed
qed

lemma step_cart_wf: "cart_wf s \<Longrightarrow> cart_wf (step x s)"
proof -
  assume w: "cart_wf s"
  from step_carts [of x s] consider (create) u d where "x = Cart_create u d"
    | (update) p u k d where "x = Cart_update p u k d"
    | (shrink) P where "carts (step x s) = filter P (carts s)"
        "next_cart (step x s) = next_cart s"
    by blast
  then show ?thesis
  proof cases
    case create
    with w show ?thesis by (simp add: step_def cart_create_wf)
  next
    case update
    with w show ?thesis by (simp add: step_def cart_update_wf)
  next
    case shrink
    with w show ?thesis by (rule cart_wf_filter)
  qed
qed

lemma readd_rejected:
  assumes e: "\<exists>c \<in> set (carts s). c_user c = u_id user \<and> c_menuitem c = k"
    and d: "cd_menuitem data = Some k"
  shows "snd (cart_create user data s) = s \<and> fst (cart_create user data s) \<noteq> Created
    \<and> (cart_errors False data s = [] \<and> cd_quantity data \<noteq> None
         \<longrightarrow> fst (cart_create user data s) = Failed UniqueViolation)"
proof (cases "cart_errors False data s = []")
  case False
  then show ?thesis by (simp add: cart_create_def)
next
  case True
  with d obtain m where m: "find (\<lambda>m. m_id m = k) (menus s) = Some m"
    by (auto simp add: cart_errors_def split: option.splits)
  then have mk: "m_id m = k" by (auto dest: find_SomeD)
  from d m have "ca_menuitem (cart_validated data s) = Some m"
    by (simp add: cart_validated_def)
  with e mk have "cart_unique_clash user None (cart_validated data s) s"
    by (simp add: cart_unique_clash_def)
  with True show ?thesis by (simp add: cart_create_def)
qed

lemma run_cart_wf: "cart_wf s \<Longrightarrow> cart_wf (run xs s)"
  by (induction xs arbitrary: s) (simp_all add: step_cart_wf)

text \<open>
  C4 as stated does not hold: adding a menu item that is already in the cart of the user
  is not merged into the existing row. The row of alice for menu item 1 has quantity 2;
  her request to add menu item 1 with quantity 3 is rejected by the uniqueness of
  (user, menuitem), and the row keeps quantity 2.
\<close>

theorem readd_not_merged_counterexample:
  "cart_create alice \<lparr>cd_menuitem = Some 1, cd_quantity = Some 3\<rparr> shop
     = (Failed UniqueViolation, shop)
   \<and> map c_quantity (filter (\<lambda>c. c_user c = 1 \<and> c_menuitem c = 1) (carts shop)) = [2]"
  by (simp add: cart_create_def cart_errors_def cart_validated_def quantity_errors_def
      validate_quantity_def cart_unique_clash_def shop_def alice_def salad_def
      bruschetta_def)

text \<open>
  C4, amended. For every user and menu item, a request to add the menu item while a cart
  row of that user for that menu item exists creates nothing and changes nothing: it
  fails, and when its data is valid it fails on the uniqueness of (user, menuitem); the
  quantity of the existing row changes only through an update of that row. No request
  produces a duplicate: when the cart rows have distinct keys and no two of them share
  user and menu item, the same is true after every request and after every sequence of
  requests.
\<close>

theorem cart_rows_unique:
  "((\<exists>c \<in> set (carts s). c_user c = u_id user \<and> c_menuitem c = k)
      \<and> cd_menuitem data = Some k
     \<longrightarrow> snd (cart_create user data s) = s \<and> fst (cart_create user data s) \<noteq> Created
        \<and> (cart_errors False data s = [] \<and> cd_quantity data \<noteq> None
             \<longrightarrow> fst (cart_create user data s) = Failed UniqueViolation))
   \<and> (cart_wf s \<longrightarrow> cart_wf (step x s))
   \<and> (cart_wf s \<longrightarrow> cart_wf (run xs s))"
proof -
  have a: "(\<exists>c \<in> set (carts s). c_user c = u_id user \<and> c_menuitem c = k)
      \<and> cd_menuitem data = Some k
     \<longrightarrow> snd (cart_create user data s) = s \<and> fst (cart_create user data s) \<noteq> Created
        \<and> (cart_errors False data s = [] \<and> cd_quantity data \<noteq> None
             \<longrightarrow> fst (cart_create user data s) = Failed UniqueViolation)"
    using readd_rejected [of s user k data] by blast
  have b: "cart_wf s \<longrightarrow> cart_wf (step x s)"
    using step_cart_wf [of s x] by blast
  have c: "cart_wf s \<longrightarrow> cart_wf (run xs s)"
    using run_cart_wf [of s xs] by blast
  from a b c show ?thesis by (intro conjI)
qed

theorem cart_rows_unique_witness:
  "cart_wf shop
   \<and> cart_errors False \<lparr>cd_menuitem = Some 1, cd_quantity = Some 3\<rparr> shop = []
   \<and> map (\<lambda>c. (c_user c, c_menuitem c)) (carts shop) = [(u_id alice, 1), (u_id alice, 2)]
   \<and> cart_create alice \<lparr>cd_menuitem = Some 1, cd_quantity = Some 3\<rparr> shop
       = (Failed UniqueViolation, shop)
   \<and> cart_wf (run [Cart_create alice \<lparr>cd_menuitem = Some 1, cd_quantity = Some 3\<rparr>,
                   Cart_update True alice 1 \<lparr>cd_menuitem = None, cd_quantity = Some 5\<rparr>]
               shop)"
proof -
  let ?d = "\<lparr>cd_menuitem = Some 1, cd_quantity = Some 3\<rparr>"
  let ?xs = "[Cart_create alice ?d,
              Cart_update True alice 1 \<lparr>cd_menuitem = None, cd_quantity = Some 5\<rparr>]"
  note t = cart_rows_unique [of shop alice 1 ?d _ ?xs]
  have w: "cart_wf shop"
    by (simp add: cart_wf_def shop_def)
  have e: "cart_errors False ?d shop = []"
    by (simp add: cart_errors_def quantity_errors_def validate_quantity_def shop_def
        salad_def bruschetta_def)
  have m: "map (\<lambda>c. (c_user c, c_menuitem c)) (carts shop) = [(u_id alice, 1), (u_id alice, 2)]"
    by (simp add: shop_def alice_def)
  have ex: "\<exists>c \<in> set (carts shop). c_user c = u_id alice \<and> c_menuitem c = 1"
    by (simp add: shop_def alice_def)
  have d: "cd_menuitem ?d = Some 1" and q: "cd_quantity ?d \<noteq> None"
    by simp_all
  from t ex d e q have "snd (cart_create alice ?d shop) = shop"
    and "fst (cart_create alice ?d shop) = Failed UniqueViolation"
    by blast+
  then have c: "cart_create alice ?d shop = (Failed UniqueViolation, shop)"
    by (simp add: prod_eq_iff)
  from t w have r: "cart_wf (run ?xs shop)"
    by blast
  from w e m c r show ?thesis by blast
qed

section \<open>The prices of the cart rows\<close>














section \<open>The total of an order\<close>










lemma order_create_done:
  assumes "filter (\<lambda>c. c_user c = u_id user) (carts s) \<noteq> []"
  shows "order_create None user today s
      = (Created,
         s\<lparr>orders := orders s @
              [\<lparr>o_id = next_order s, o_user = u_id user, o_delivery_crew = None,
                o_status = False,
                o_total = sum_list (map c_price (filter (\<lambda>c. c_user c = u_id user) (carts s))),
                o_date = today\<rparr>],
           order_items := order_items s @ new_items (next_order_item s)
              \<lparr>o_id = next_order s, o_user = u_id user, o_delivery_crew = None,
               o_status = False,
               o_total = sum_list (map c_price (filter (\<lambda>c. c_user c = u_id user) (carts s))),
               o_date = today\<rparr>
              (filter (\<lambda>c. c_user c = u_id user) (carts s)),
           carts := filter (\<lambda>c. c_user c \<noteq> u_id user) (carts s),
           next_order := Suc (next_order s),
           next_order_item := next_order_item s
              + length (filter (\<lambda>c. c_user c = u_id user) (carts s))\<rparr>)"
  using assms by (simp add: order_create_def Let_def create_items_ok)






lemma step_next_order: "next_order s \<le> next_order (step x s)"
proof -
  consider (create) u d where "x = Order_create u d"
    | (assign) u k c where "x = Assign_delivery_crew u k c"
    | (destroy) u k where "x = Order_destroy u k"
    | (menu) u k where "x = Menu_destroy u k"
    | (other) "\<forall>u d. x \<noteq> Order_create u d" "\<forall>u k c. x \<noteq> Assign_delivery_crew u k c"
        "\<forall>u k. x \<noteq> Order_destroy u k" "\<forall>u k. x \<noteq> Menu_destroy u k"
    by blast
  then show ?thesis
  proof cases
    case create
    show ?thesis
    proof (cases "filter (\<lambda>c. c_user c = u_id u) (carts s) = []")
      case True
      then show ?thesis by (simp add: create step_def order_create_def)
    next
      case False
      then show ?thesis by (simp add: create step_def order_create_done)
    qed
  next
    case assign
    with assign_orders [of u k c s] show ?thesis by (auto simp add: step_def)
  next
    case destroy
    then show ?thesis by (simp add: step_def order_destroy_def split: option.splits)
  next
    case menu
    then show ?thesis by (simp add: menu_destroy_frame)
  next
    case other
    then show ?thesis by (simp add: step_frame_orders)
  qed
qed



lemma run_next_order: "next_order s \<le> next_order (run xs s)"
proof (induction xs arbitrary: s)
  case Nil
  show ?case by simp
next
  case (Cons x xs)
  from step_next_order [of s x] Cons [of "step x s"] show ?case by simp
qed





end
